theory Spec2Isabelle
  imports Complex_Main
begin

section \<open>CryptoTrack: the price tracker of \<^verbatim>\<open>cryptotrack.py\<close>\<close>

text \<open>
  The program is a command-line client of a price API. Its pure part formats numbers
  (\<^verbatim>\<open>format_price\<close>, \<^verbatim>\<open>format_change\<close>); the rest prints tables, polls one
  asset in a loop (\<^verbatim>\<open>watch_crypto\<close>) and dispatches the commands of an interactive
  prompt (\<^verbatim>\<open>run_interactive\<close>).

  Conventions of the model.
  \<^item> A Python number is an \<^verbatim>\<open>int\<close>, of any size, or a \<^verbatim>\<open>float\<close>: a finite float
    is the rational it denotes, and the negative zero, the two infinities and
    not-a-number are values of their own. The format specifications \<^verbatim>\<open>.2f\<close>,
    \<^verbatim>\<open>.4f\<close>, \<^verbatim>\<open>.8f\<close>, \<^verbatim>\<open>,.0f\<close> turn an \<^verbatim>\<open>int\<close> into the nearest float first
    (or raise \<^verbatim>\<open>OverflowError\<close>), and round the exact value of a finite float
    correctly, ties to the even digit.
  \<^item> Text is a \<^typ>\<open>string\<close> of ASCII characters.
  \<^item> Standard output is the list of the texts written, one element for each call of
    \<^verbatim>\<open>print\<close>, the line end included.
  \<^item> What the network, the clock and the operator do is an input of the model: the
    outcome of each request and of each sleep is given to the function that performs it.
\<close>

subsection \<open>Characters and text\<close>

definition upper_char :: "char \<Rightarrow> char" where
  "upper_char c =
     (case map_of (zip ''abcdefghijklmnopqrstuvwxyz'' ''ABCDEFGHIJKLMNOPQRSTUVWXYZ'') c of
        None \<Rightarrow> c | Some u \<Rightarrow> u)"

definition lower_char :: "char \<Rightarrow> char" where
  "lower_char c =
     (case map_of (zip ''ABCDEFGHIJKLMNOPQRSTUVWXYZ'' ''abcdefghijklmnopqrstuvwxyz'') c of
        None \<Rightarrow> c | Some l \<Rightarrow> l)"

text \<open>\<^verbatim>\<open>str.upper\<close> and \<^verbatim>\<open>str.lower\<close>.\<close>

definition upper :: "string \<Rightarrow> string" where
  "upper s = map upper_char s"

definition lower :: "string \<Rightarrow> string" where
  "lower s = map lower_char s"

text \<open>
  The white space of \<^verbatim>\<open>str.strip\<close> and \<^verbatim>\<open>str.split\<close>: tab, line feed, vertical
  tab, form feed, carriage return, the four separators \<^verbatim>\<open>0x1C\<close> to \<^verbatim>\<open>0x1F\<close>, space.
\<close>

definition is_space :: "char \<Rightarrow> bool" where
  "is_space c \<longleftrightarrow>
     c \<in> set [CHR 0x09, CHR 0x0A, CHR 0x0B, CHR 0x0C, CHR 0x0D,
              CHR 0x1C, CHR 0x1D, CHR 0x1E, CHR 0x1F, CHR '' '']"

definition strip :: "string \<Rightarrow> string" where
  "strip s = rev (dropWhile is_space (rev (dropWhile is_space s)))"

text \<open>\<^verbatim>\<open>s.split()\<close>: the maximal runs of characters that are not white space.\<close>

fun split_from :: "string \<Rightarrow> string \<Rightarrow> string list" where
  "split_from cur [] = (if cur = [] then [] else [cur])"
| "split_from cur (c # cs) =
     (if is_space c then (if cur = [] then split_from [] cs else cur # split_from [] cs)
      else split_from (cur @ [c]) cs)"

definition split :: "string \<Rightarrow> string list" where
  "split s = split_from [] s"

text \<open>\<^verbatim>\<open>f"{s:<w}"\<close>: the text, then spaces up to the width \<open>w\<close>; a longer text is kept whole.\<close>

definition ljust :: "nat \<Rightarrow> string \<Rightarrow> string" where
  "ljust w s = s @ replicate (w - length s) CHR '' ''"

subsection \<open>Decimal numerals\<close>

definition digit_char :: "nat \<Rightarrow> char" where
  "digit_char d = ''0123456789'' ! (d mod 10)"

fun digits :: "nat \<Rightarrow> string" where
  "digits n = (if n < 10 then [digit_char n] else digits (n div 10) @ [digit_char n])"

text \<open>The \<open>p\<close> lowest digits of a number, the highest first.\<close>

primrec last_digits :: "nat \<Rightarrow> nat \<Rightarrow> string" where
  "last_digits 0 n = []"
| "last_digits (Suc p) n = last_digits p (n div 10) @ [digit_char n]"

text \<open>\<^verbatim>\<open>str(n)\<close> of an integer.\<close>

definition str_int :: "int \<Rightarrow> string" where
  "str_int i = (if i < 0 then ''-'' @ digits (nat (- i)) else digits (nat i))"

text \<open>Rounding to the nearest integer, a tie to the even one.\<close>

definition round_half_even :: "rat \<Rightarrow> int" where
  "round_half_even x =
     (let f = \<lfloor>x\<rfloor>; d = x - of_int f
      in if d < 1 / 2 then f else if 1 / 2 < d then f + 1 else if even f then f else f + 1)"

text \<open>The thousands separator of the \<^verbatim>\<open>,\<close> option: a comma before each group of three digits.\<close>

fun group3 :: "nat \<Rightarrow> string" where
  "group3 n =
     (if n < 1000 then digits n
      else group3 (n div 1000) @ '','' @
           [digit_char (n div 100), digit_char (n div 10), digit_char n])"

text \<open>
  The magnitude of a number in units of \<open>10\<^sup>-\<^sup>p\<close>, rounded: the digits that the
  format \<^verbatim>\<open>.pf\<close> shows, as one natural number.
\<close>

definition scaled :: "nat \<Rightarrow> rat \<Rightarrow> nat" where
  "scaled p x = nat (round_half_even (\<bar>x\<bar> * 10 ^ p))"

text \<open>
  The text of a finite float in the format \<^verbatim>\<open>.pf\<close>, and \<^verbatim>\<open>,.pf\<close> when \<open>sep\<close> is
  set: the sign of a negative number, the integer part, and after a point the \<open>p\<close>
  digits of the fraction (no point when \<open>p = 0\<close>). The number is rounded to \<open>p\<close>
  places first; a negative number that rounds to zero keeps its sign.
\<close>

definition format_f :: "bool \<Rightarrow> nat \<Rightarrow> rat \<Rightarrow> string" where
  "format_f sep p x =
     (let m = scaled p x;
          ip = m div 10 ^ p;
          fp = digits (m mod 10 ^ p)
      in (if x < 0 then ''-'' else '''') @
         (if sep then group3 ip else digits ip) @
         (if p = 0 then '''' else ''.'' @ replicate (p - length fp) CHR ''0'' @ fp))"

subsection \<open>Exceptions\<close>

datatype exn =
  KeyboardInterrupt | KeyError | TypeError | ValueError | AttributeError | OverflowError

text \<open>Sequencing: the first exception raised ends the evaluation.\<close>

definition and_then :: "exn + 'a \<Rightarrow> ('a \<Rightarrow> exn + 'b) \<Rightarrow> exn + 'b" where
  "and_then r f = (case r of Inl e \<Rightarrow> Inl e | Inr v \<Rightarrow> f v)"

subsection \<open>Numbers\<close>

text \<open>
  A float is finite, and then the rational it denotes (the positive zero is
  \<open>Finite 0\<close>), or the negative zero, or an infinity, or not-a-number. Every float
  that is finite is a \<open>Finite x\<close>; the functions below treat every rational alike.
\<close>

datatype pyfloat = Finite rat | NegZero | PosInf | NegInf | NaN

datatype pynum = PyInt int | PyFloat pyfloat

text \<open>
  The comparisons \<^verbatim>\<open>n >= k\<close>, \<^verbatim>\<open>n > k\<close> and \<^verbatim>\<open>n < k\<close> of a number with an
  integer constant. They are exact; the negative zero compares as zero, and every
  comparison with not-a-number is false.
\<close>

definition num_ge :: "pynum \<Rightarrow> int \<Rightarrow> bool" where
  "num_ge n k =
     (case n of
        PyInt i \<Rightarrow> k \<le> i
      | PyFloat (Finite x) \<Rightarrow> of_int k \<le> x
      | PyFloat NegZero \<Rightarrow> k \<le> 0
      | PyFloat PosInf \<Rightarrow> True
      | PyFloat NegInf \<Rightarrow> False
      | PyFloat NaN \<Rightarrow> False)"

definition num_gt :: "pynum \<Rightarrow> int \<Rightarrow> bool" where
  "num_gt n k =
     (case n of
        PyInt i \<Rightarrow> k < i
      | PyFloat (Finite x) \<Rightarrow> of_int k < x
      | PyFloat NegZero \<Rightarrow> k < 0
      | PyFloat PosInf \<Rightarrow> True
      | PyFloat NegInf \<Rightarrow> False
      | PyFloat NaN \<Rightarrow> False)"

definition num_lt :: "pynum \<Rightarrow> int \<Rightarrow> bool" where
  "num_lt n k =
     (case n of
        PyInt i \<Rightarrow> i < k
      | PyFloat (Finite x) \<Rightarrow> x < of_int k
      | PyFloat NegZero \<Rightarrow> 0 < k
      | PyFloat PosInf \<Rightarrow> False
      | PyFloat NegInf \<Rightarrow> True
      | PyFloat NaN \<Rightarrow> False)"

text \<open>\<^verbatim>\<open>n.bit_length()\<close> of a natural number.\<close>

fun bit_length :: "nat \<Rightarrow> nat" where
  "bit_length n = (if n = 0 then 0 else 1 + bit_length (n div 2))"

text \<open>
  \<^verbatim>\<open>float(i)\<close> of an \<^verbatim>\<open>int\<close>: the magnitude is rounded to its 53 leading bits, a
  tie to the even one, and a result of \<open>2\<^sup>1\<^sup>0\<^sup>2\<^sup>4\<close> or more is beyond the floats.
\<close>

definition nearest_float :: "int \<Rightarrow> rat" where
  "nearest_float i =
     (let a = nat \<bar>i\<bar>; e = bit_length a - 53
      in of_int (sgn i * round_half_even (of_nat a / 2 ^ e)) * 2 ^ e)"

definition float_of_int :: "int \<Rightarrow> exn + pyfloat" where
  "float_of_int i =
     (if 2 ^ 1024 \<le> \<bar>nearest_float i\<bar> then Inl OverflowError
      else Inr (Finite (nearest_float i)))"

text \<open>The float that the format code \<^verbatim>\<open>f\<close> shows for a number.\<close>

definition float_of :: "pynum \<Rightarrow> exn + pyfloat" where
  "float_of n = (case n of PyInt i \<Rightarrow> float_of_int i | PyFloat x \<Rightarrow> Inr x)"

text \<open>
  \<^verbatim>\<open>format(x, ".pf")\<close> and \<^verbatim>\<open>format(x, ",.pf")\<close> of a float, and of a number. The
  negative zero keeps its sign; an infinity and not-a-number are shown by name, with no
  digits.
\<close>

definition format_float :: "bool \<Rightarrow> nat \<Rightarrow> pyfloat \<Rightarrow> string" where
  "format_float sep p x =
     (case x of
        Finite r \<Rightarrow> format_f sep p r
      | NegZero \<Rightarrow> ''-'' @ format_f sep p 0
      | PosInf \<Rightarrow> ''inf''
      | NegInf \<Rightarrow> ''-inf''
      | NaN \<Rightarrow> ''nan'')"

definition format_num :: "bool \<Rightarrow> nat \<Rightarrow> pynum \<Rightarrow> exn + string" where
  "format_num sep p n = and_then (float_of n) (\<lambda>x. Inr (format_float sep p x))"

subsection \<open>The formatter\<close>

definition format_price :: "pynum \<Rightarrow> exn + string" where
  "format_price price =
     (if num_ge price 1000 then and_then (format_num True 2 price) (\<lambda>s. Inr (''$'' @ s))
      else if num_ge price 1 then and_then (format_num False 4 price) (\<lambda>s. Inr (''$'' @ s))
      else and_then (format_num False 8 price) (\<lambda>s. Inr (''$'' @ s)))"

text \<open>The escape sequences of the source: \<^verbatim>\<open>\033[92m\<close>, \<^verbatim>\<open>\033[91m\<close>, \<^verbatim>\<open>\033[0m\<close>.\<close>

definition green :: string where
  "green = CHR 0x1B # ''[92m''"

definition red :: string where
  "red = CHR 0x1B # ''[91m''"

definition reset :: string where
  "reset = CHR 0x1B # ''[0m''"

definition format_change :: "pynum \<Rightarrow> exn + string" where
  "format_change change =
     (if num_gt change 0 then
        and_then (format_num False 2 change) (\<lambda>s. Inr (green @ ''+'' @ s @ ''%'' @ reset))
      else if num_lt change 0 then
        and_then (format_num False 2 change) (\<lambda>s. Inr (red @ s @ ''%'' @ reset))
      else and_then (format_num False 2 change) (\<lambda>s. Inr (s @ ''%'')))"

text \<open>
  What a reader that shows no colours keeps of a text: every escape sequence, from the
  escape character to the letter \<^verbatim>\<open>m\<close> that ends it, is left out. The flag tells
  whether the reader is inside a sequence.
\<close>

fun strip_esc :: "bool \<Rightarrow> string \<Rightarrow> string" where
  "strip_esc inside [] = []"
| "strip_esc True (c # cs) = (if c = CHR ''m'' then strip_esc False cs else strip_esc True cs)"
| "strip_esc False (c # cs) = (if c = CHR 0x1B then strip_esc True cs else c # strip_esc False cs)"

definition unstyled :: "string \<Rightarrow> string" where
  "unstyled s = strip_esc False s"

subsection \<open>Values decoded from JSON, and the exceptions of the operations on them\<close>

datatype json =
    JNull
  | JBool bool
  | JInt int
  | JFloat pyfloat
  | JStr string
  | JArr "json list"
  | JObj "(string \<times> json) list"

text \<open>A \<^verbatim>\<open>Dict\<close> decoded from a JSON object: its items, each key once.\<close>

type_synonym dict = "(string \<times> json) list"

text \<open>\<^verbatim>\<open>d[k]\<close> and \<^verbatim>\<open>d.get(k, default)\<close> on a dictionary.\<close>

definition subscript :: "dict \<Rightarrow> string \<Rightarrow> exn + json" where
  "subscript d k = (case map_of d k of None \<Rightarrow> Inl KeyError | Some v \<Rightarrow> Inr v)"

definition get_default :: "dict \<Rightarrow> string \<Rightarrow> json \<Rightarrow> json" where
  "get_default d k dflt = (case map_of d k of None \<Rightarrow> dflt | Some v \<Rightarrow> v)"

text \<open>
  The same two operations on a value that should be a dictionary: a string key
  subscripts nothing else, and nothing else has a method \<^verbatim>\<open>get\<close>.
\<close>

definition subscript_json :: "json \<Rightarrow> string \<Rightarrow> exn + json" where
  "subscript_json v k = (case v of JObj d \<Rightarrow> subscript d k | _ \<Rightarrow> Inl TypeError)"

definition get_json :: "json \<Rightarrow> string \<Rightarrow> json \<Rightarrow> exn + json" where
  "get_json v k dflt = (case v of JObj d \<Rightarrow> Inr (get_default d k dflt) | _ \<Rightarrow> Inl AttributeError)"

text \<open>
  The number a value is in a comparison with a number: a JSON number without fraction
  and exponent is an \<^verbatim>\<open>int\<close>, any other a \<^verbatim>\<open>float\<close>; \<^verbatim>\<open>True\<close> and
  \<^verbatim>\<open>False\<close> are the integers 1 and 0; anything else raises \<^verbatim>\<open>TypeError\<close>.
\<close>

definition number :: "json \<Rightarrow> exn + pynum" where
  "number v =
     (case v of
        JInt i \<Rightarrow> Inr (PyInt i)
      | JFloat x \<Rightarrow> Inr (PyFloat x)
      | JBool b \<Rightarrow> Inr (PyInt (if b then 1 else 0))
      | _ \<Rightarrow> Inl TypeError)"

text \<open>
  \<^verbatim>\<open>f"{v:,.pf}"\<close> of a value: a number is formatted, a string does not know the format
  code \<^verbatim>\<open>f\<close> (\<^verbatim>\<open>ValueError\<close>), and \<^verbatim>\<open>None\<close>, a list and a dictionary take no
  format specification at all (\<^verbatim>\<open>TypeError\<close>).
\<close>

definition format_json :: "nat \<Rightarrow> json \<Rightarrow> exn + string" where
  "format_json p v =
     (case v of
        JInt i \<Rightarrow> format_num True p (PyInt i)
      | JFloat x \<Rightarrow> format_num True p (PyFloat x)
      | JBool b \<Rightarrow> format_num True p (PyInt (if b then 1 else 0))
      | JStr s \<Rightarrow> Inl ValueError
      | _ \<Rightarrow> Inl TypeError)"

text \<open>The two formatters applied to a value taken from a dictionary.\<close>

definition format_price_json :: "json \<Rightarrow> exn + string" where
  "format_price_json v = and_then (number v) format_price"

definition format_change_json :: "json \<Rightarrow> exn + string" where
  "format_change_json v = and_then (number v) format_change"

subsection \<open>The requests\<close>

text \<open>
  A GET request, and what comes of it: the operator's interrupt arrives while it waits
  (\<open>Interrupted\<close>), \<^verbatim>\<open>requests\<close> raises a \<^verbatim>\<open>RequestException\<close> with a message
  (\<open>Failed\<close>: no connection, a timeout, a status that \<^verbatim>\<open>raise_for_status\<close> refuses,
  a body that is not JSON), or the body is decoded (\<open>Body\<close>).
\<close>

record request =
  url :: string
  params :: "(string \<times> string) list"

datatype 'a reply = Interrupted | Failed string | Body 'a

definition base_url :: string where
  "base_url = ''https://api.coingecko.com/api/v3''"

definition vs_currency :: string where
  "vs_currency = ''usd''"

text \<open>\<^verbatim>\<open>print(s)\<close> writes the text and a line feed.\<close>

definition line :: "string \<Rightarrow> string" where
  "line s = s @ [CHR 0x0A]"

text \<open>
  The functions that print return the texts written together with their result: the
  value returned, or the exception that leaves the function.
\<close>

definition price_request :: "string \<Rightarrow> request" where
  "price_request crypto_id =
     \<lparr>url = base_url @ ''/simple/price'',
      params = [(''ids'', crypto_id), (''vs_currencies'', vs_currency),
                (''include_24hr_change'', ''true''), (''include_last_updated_at'', ''true'')]\<rparr>"

definition get_crypto_price ::
  "(request \<Rightarrow> dict reply) \<Rightarrow> string \<Rightarrow> string list \<times> (exn + dict option)" where
  "get_crypto_price http crypto_id =
     (case http (price_request crypto_id) of
        Interrupted \<Rightarrow> ([], Inl KeyboardInterrupt)
      | Failed e \<Rightarrow> ([line (''Error fetching data: '' @ e)], Inr None)
      | Body payload \<Rightarrow> ([], Inr (Some payload)))"

definition markets_request :: "int \<Rightarrow> request" where
  "markets_request limit =
     \<lparr>url = base_url @ ''/coins/markets'',
      params = [(''vs_currency'', vs_currency), (''order'', ''market_cap_desc''),
                (''per_page'', str_int limit), (''page'', ''1''), (''sparkline'', ''false'')]\<rparr>"

definition get_top_cryptos ::
  "(request \<Rightarrow> dict list reply) \<Rightarrow> int \<Rightarrow> string list \<times> (exn + dict list option)" where
  "get_top_cryptos http limit =
     (case http (markets_request limit) of
        Interrupted \<Rightarrow> ([], Inl KeyboardInterrupt)
      | Failed e \<Rightarrow> ([line (''Error fetching data: '' @ e)], Inr None)
      | Body payload \<Rightarrow> ([], Inr (Some payload)))"

text \<open>
  \<^verbatim>\<open>v[:10]\<close>: the first ten elements of a list, the first ten characters of a string;
  no other value can be sliced (a dictionary raises \<^verbatim>\<open>TypeError\<close> up to Python 3.11,
  as here, and \<^verbatim>\<open>KeyError\<close> from 3.12 on).
\<close>

definition slice10 :: "json \<Rightarrow> exn + json" where
  "slice10 v =
     (case v of JArr xs \<Rightarrow> Inr (JArr (take 10 xs)) | JStr s \<Rightarrow> Inr (JStr (take 10 s))
      | _ \<Rightarrow> Inl TypeError)"

definition search_request :: "string \<Rightarrow> request" where
  "search_request query = \<lparr>url = base_url @ ''/search'', params = [(''query'', query)]\<rparr>"

definition search_crypto ::
  "(request \<Rightarrow> dict reply) \<Rightarrow> string \<Rightarrow> string list \<times> (exn + json option)" where
  "search_crypto http query =
     (case http (search_request query) of
        Interrupted \<Rightarrow> ([], Inl KeyboardInterrupt)
      | Failed e \<Rightarrow> ([line (''Error searching: '' @ e)], Inr None)
      | Body payload \<Rightarrow>
          ([], and_then (slice10 (get_default payload ''coins'' (JArr []))) (\<lambda>r. Inr (Some r))))"

subsection \<open>The table of the top assets\<close>

text \<open>\<^verbatim>\<open>v.upper()\<close> of a value: only a string has the method.\<close>

definition upper_json :: "json \<Rightarrow> exn + string" where
  "upper_json v = (case v of JStr s \<Rightarrow> Inr (upper s) | _ \<Rightarrow> Inl AttributeError)"

text \<open>
  \<^verbatim>\<open>v[:18] + (".." if len(v) > 18 else "")\<close>: a string is cut to 18 characters and
  marked; a list is sliced too, but does not take the text that is added to it, and no
  other value is sliced (for a dictionary see \<open>slice10\<close>).
\<close>

definition short_name :: "json \<Rightarrow> exn + string" where
  "short_name v =
     (case v of JStr s \<Rightarrow> Inr (take 18 s @ (if length s > 18 then ''..'' else []))
      | _ \<Rightarrow> Inl TypeError)"

definition table_header :: string where
  "table_header =
     [CHR 0x0A] @ ljust 8 ''Symbol'' @ '' '' @ ljust 20 ''Name'' @ '' '' @ ljust 15 ''Price'' @
     '' '' @ ljust 12 ''24h Change'' @ '' '' @ ljust 15 ''Market Cap''"

definition table_rule :: string where
  "table_rule = replicate 75 CHR ''-''"

text \<open>The text of the row of one entry: the body of the loop up to its \<^verbatim>\<open>print\<close>.\<close>

definition table_row :: "dict \<Rightarrow> exn + string" where
  "table_row crypto =
     and_then (and_then (subscript crypto ''symbol'') upper_json) (\<lambda>symbol.
     and_then (and_then (subscript crypto ''name'') short_name) (\<lambda>name.
     and_then (and_then (subscript crypto ''current_price'') format_price_json) (\<lambda>price.
     and_then (format_change_json (get_default crypto ''price_change_percentage_24h'' (JInt 0)))
       (\<lambda>change.
     and_then (format_json 0 (get_default crypto ''market_cap'' (JInt 0))) (\<lambda>cap.
     Inr (ljust 8 symbol @ '' '' @ ljust 20 name @ '' '' @ ljust 15 price @ '' '' @
          ljust 12 change @ '' '' @ ljust 15 (''$'' @ cap)))))))"

text \<open>The loop over the entries: the rows printed, and the exception that ended it, if any.\<close>

fun table_rows :: "dict list \<Rightarrow> string list \<times> exn option" where
  "table_rows [] = ([], None)"
| "table_rows (crypto # cryptos) =
     (case table_row crypto of
        Inl e \<Rightarrow> ([], Some e)
      | Inr row \<Rightarrow> (case table_rows cryptos of (out, r) \<Rightarrow> (line row # out, r)))"

definition display_top_list :: "dict list \<Rightarrow> string list \<times> exn option" where
  "display_top_list cryptos =
     (case table_rows cryptos of (out, r) \<Rightarrow> (line table_header # line table_rule # out, r))"

text \<open>
  The two lines that every caller of \<^verbatim>\<open>display_top_list\<close> has: \<^verbatim>\<open>cryptos =
  get_top_cryptos(limit)\<close>, then \<^verbatim>\<open>if cryptos: display_top_list(cryptos)\<close>.
\<close>

definition show_top :: "(request \<Rightarrow> dict list reply) \<Rightarrow> int \<Rightarrow> string list \<times> exn option" where
  "show_top http limit =
     (case get_top_cryptos http limit of
        (out, Inl e) \<Rightarrow> (out, Some e)
      | (out, Inr None) \<Rightarrow> (out, None)
      | (out, Inr (Some cryptos)) \<Rightarrow>
          (if cryptos \<noteq> [] then
             (case display_top_list cryptos of (out', r) \<Rightarrow> (out @ out', r))
           else (out, None)))"

subsection \<open>The price of one asset, as \<^verbatim>\<open>main\<close> prints it\<close>

text \<open>
  The branch \<^verbatim>\<open>elif args.price\<close> of \<^verbatim>\<open>main\<close>. A dictionary is true when it has an
  item. The first line is printed before the second is formatted, so it is written also
  when the second raises. After \<^verbatim>\<open>data['usd']\<close> has succeeded \<^verbatim>\<open>data\<close> is a
  dictionary, and the test \<^verbatim>\<open>'usd_24h_change' in data\<close> is a test of its keys.
\<close>

definition price_report :: "string \<Rightarrow> json \<Rightarrow> string list \<times> exn option" where
  "price_report crypto_id data =
     (case and_then (subscript_json data ''usd'') (format_json 8) of
        Inl e \<Rightarrow> ([], Some e)
      | Inr usd \<Rightarrow>
          (case data of
             JObj d \<Rightarrow>
               (case map_of d ''usd_24h_change'' of
                  None \<Rightarrow> ([line (upper crypto_id @ '': $'' @ usd)], None)
                | Some v \<Rightarrow>
                    (case format_change_json v of
                       Inl e \<Rightarrow> ([line (upper crypto_id @ '': $'' @ usd)], Some e)
                     | Inr change \<Rightarrow>
                         ([line (upper crypto_id @ '': $'' @ usd),
                           line (''24h Change: '' @ change)], None)))
           | _ \<Rightarrow> ([line (upper crypto_id @ '': $'' @ usd)], Some TypeError)))"

definition main_price :: "(request \<Rightarrow> dict reply) \<Rightarrow> string \<Rightarrow> string list \<times> exn option" where
  "main_price http crypto_id =
     (case get_crypto_price http crypto_id of
        (out, Inl e) \<Rightarrow> (out, Some e)
      | (out, Inr None) \<Rightarrow> (out @ [line ''Cryptocurrency not found.''], None)
      | (out, Inr (Some price_data)) \<Rightarrow>
          (if price_data \<noteq> [] \<and> map_of price_data crypto_id \<noteq> None then
             (case subscript price_data crypto_id of
                Inl e \<Rightarrow> (out, Some e)
              | Inr data \<Rightarrow> (case price_report crypto_id data of (out', r) \<Rightarrow> (out @ out', r)))
           else (out @ [line ''Cryptocurrency not found.''], None)))"

subsection \<open>Watch mode\<close>

text \<open>
  What the world does during one cycle of the loop: how the server answers the request
  of that cycle, what the clock shows (\<^verbatim>\<open>datetime.now().strftime("%H:%M:%S")\<close>), and
  whether the operator's interrupt arrives during the sleep.
\<close>

record cycle =
  server :: "request \<Rightarrow> dict reply"
  clock :: string
  interrupt :: bool

text \<open>
  \<^verbatim>\<open>time.sleep(secs)\<close>. The length is first converted to the clock's unit: a length
  beyond what the platform can hold, \<open>max_sleep\<close> seconds in either direction, raises
  \<^verbatim>\<open>OverflowError\<close>. The bound depends on the platform and is a parameter here; it
  is 9223372036 where the clock counts nanoseconds in 64 bits, and a platform may report
  the failure as \<^verbatim>\<open>OSError\<close> instead. Then a negative length raises
  \<^verbatim>\<open>ValueError\<close>. Otherwise the sleep either is interrupted or lasts \<open>secs\<close>
  seconds.
\<close>

definition time_sleep :: "int \<Rightarrow> int \<Rightarrow> bool \<Rightarrow> exn option" where
  "time_sleep max_sleep secs interrupted =
     (if max_sleep < secs \<or> secs < - max_sleep then Some OverflowError
      else if secs < 0 then Some ValueError
      else if interrupted then Some KeyboardInterrupt
      else None)"

text \<open>The line that a cycle renders: the body of the \<^verbatim>\<open>if\<close> in the loop.\<close>

definition watch_line :: "string \<Rightarrow> string \<Rightarrow> dict \<Rightarrow> exn + string" where
  "watch_line crypto_id current_time price_data =
     and_then (subscript price_data crypto_id) (\<lambda>data.
     and_then (subscript_json data vs_currency) (\<lambda>price.
     and_then (get_json data (vs_currency @ ''_24h_change'') (JInt 0)) (\<lambda>change.
     and_then (format_price_json price) (\<lambda>p.
     and_then (format_change_json change) (\<lambda>c.
     Inr ([CHR 0x0D] @ ''['' @ current_time @ ''] '' @ upper crypto_id @ '': '' @ p @
          '' ('' @ c @ '')''))))))"

text \<open>
  The \<^verbatim>\<open>if\<close> of the loop: the texts that it writes for what
  \<^verbatim>\<open>get_crypto_price\<close> has returned, or the exception that it raises.
\<close>

definition watch_render :: "string \<Rightarrow> string \<Rightarrow> dict option \<Rightarrow> exn + string list" where
  "watch_render crypto_id current_time price_data =
     (case price_data of
        None \<Rightarrow> Inr []
      | Some d \<Rightarrow>
          if d \<noteq> [] \<and> map_of d crypto_id \<noteq> None
          then and_then (watch_line crypto_id current_time d) (\<lambda>l. Inr [l])
          else Inr [])"

text \<open>
  One cycle: the texts written, the sleeps completed, and the exception that ended the
  cycle, if any.
\<close>

definition watch_cycle ::
  "int \<Rightarrow> string \<Rightarrow> int \<Rightarrow> cycle \<Rightarrow> string list \<times> int list \<times> exn option" where
  "watch_cycle max_sleep crypto_id interval c =
     (case get_crypto_price (server c) crypto_id of
        (out, Inl e) \<Rightarrow> (out, [], Some e)
      | (out, Inr price_data) \<Rightarrow>
          (case watch_render crypto_id (clock c) price_data of
             Inl e \<Rightarrow> (out, [], Some e)
           | Inr rendered \<Rightarrow>
               (case time_sleep max_sleep interval (interrupt c) of
                  Some e \<Rightarrow> (out @ rendered, [], Some e)
                | None \<Rightarrow> (out @ rendered, [interval], None))))"

text \<open>
  \<^verbatim>\<open>while True\<close>, run against the cycles that the world provides. The loop has no
  exit of its own: when the cycles given are used up and none has raised, it is
  still going round (the result \<open>None\<close>).
\<close>

fun watch_loop ::
  "int \<Rightarrow> string \<Rightarrow> int \<Rightarrow> cycle list \<Rightarrow> string list \<times> int list \<times> exn option" where
  "watch_loop max_sleep crypto_id interval [] = ([], [], None)"
| "watch_loop max_sleep crypto_id interval (c # cs) =
     (case watch_cycle max_sleep crypto_id interval c of
        (out, slept, Some e) \<Rightarrow> (out, slept, Some e)
      | (out, slept, None) \<Rightarrow>
          (case watch_loop max_sleep crypto_id interval cs of
             (out', slept', r) \<Rightarrow> (out @ out', slept @ slept', r)))"

text \<open>
  A watch session: \<open>Running\<close> while the loop goes round, \<open>Stopped\<close> when
  \<^verbatim>\<open>watch_crypto\<close> has caught the interrupt, printed its notice and returned,
  \<open>Crashed\<close> when another exception has left \<^verbatim>\<open>watch_crypto\<close>.
\<close>

datatype status = Running | Stopped | Crashed exn

record session =
  printed :: "string list"
  sleeps :: "int list"
  state :: status

definition banner :: "string \<Rightarrow> int \<Rightarrow> string list" where
  "banner crypto_id interval =
     [line (''Watching '' @ upper crypto_id @ '' - Press Ctrl+C to stop''),
      line (''Update interval: '' @ str_int interval @ '' seconds'')]"

definition stop_notice :: string where
  "stop_notice = line ([CHR 0x0A, CHR 0x0A] @ ''Stopped watching.'')"

text \<open>
  \<^verbatim>\<open>watch_crypto(crypto_id, interval)\<close>, on a platform whose longest sleep is
  \<open>max_sleep\<close>, against the cycles given.
\<close>

definition watch_crypto :: "int \<Rightarrow> string \<Rightarrow> int \<Rightarrow> cycle list \<Rightarrow> session" where
  "watch_crypto max_sleep crypto_id interval cycles =
     (case watch_loop max_sleep crypto_id interval cycles of
        (out, slept, None) \<Rightarrow>
          \<lparr>printed = banner crypto_id interval @ out, sleeps = slept, state = Running\<rparr>
      | (out, slept, Some e) \<Rightarrow>
          (if e = KeyboardInterrupt
           then \<lparr>printed = banner crypto_id interval @ out @ [stop_notice], sleeps = slept,
                 state = Stopped\<rparr>
           else \<lparr>printed = banner crypto_id interval @ out, sleeps = slept,
                 state = Crashed e\<rparr>))"

text \<open>The branch \<^verbatim>\<open>elif args.watch\<close> of \<^verbatim>\<open>main\<close>: the interval is the integer given.\<close>

definition main_watch :: "int \<Rightarrow> string \<Rightarrow> int \<Rightarrow> cycle list \<Rightarrow> session" where
  "main_watch max_sleep watch interval cycles = watch_crypto max_sleep watch interval cycles"

text \<open>
  Three things that can be said of a cycle. The operator cancels in it: the interrupt
  arrives while the request waits, or during the sleep. The cycle has no quote to
  render: the request fails, or the body has no item for the asset. The rendering of
  the cycle raises an exception.
\<close>

definition cancelled :: "string \<Rightarrow> cycle \<Rightarrow> bool" where
  "cancelled crypto_id c \<longleftrightarrow> server c (price_request crypto_id) = Interrupted \<or> interrupt c"

definition no_quote :: "string \<Rightarrow> cycle \<Rightarrow> bool" where
  "no_quote crypto_id c \<longleftrightarrow>
     (case server c (price_request crypto_id) of
        Interrupted \<Rightarrow> False
      | Failed e \<Rightarrow> True
      | Body payload \<Rightarrow> map_of payload crypto_id = None)"

definition render_raises :: "string \<Rightarrow> exn \<Rightarrow> cycle \<Rightarrow> bool" where
  "render_raises crypto_id e c \<longleftrightarrow>
     (case server c (price_request crypto_id) of
        Interrupted \<Rightarrow> False
      | Failed msg \<Rightarrow> False
      | Body payload \<Rightarrow> watch_render crypto_id (clock c) (Some payload) = Inl e)"

text \<open>The messages that \<^verbatim>\<open>get_crypto_price\<close> prints for the requests that fail.\<close>

definition fetch_errors :: "string \<Rightarrow> cycle list \<Rightarrow> string list" where
  "fetch_errors crypto_id cycles =
     concat (map (\<lambda>c. case server c (price_request crypto_id) of
                         Failed e \<Rightarrow> [line (''Error fetching data: '' @ e)]
                       | _ \<Rightarrow> []) cycles)"

subsection \<open>The interactive prompt\<close>

text \<open>\<^verbatim>\<open>s.startswith(p)\<close>, \<^verbatim>\<open>s.isdigit()\<close> and \<^verbatim>\<open>int(s)\<close> of a string of digits.\<close>

definition startswith :: "string \<Rightarrow> string \<Rightarrow> bool" where
  "startswith s p \<longleftrightarrow> take (length p) s = p"

definition isdigit :: "string \<Rightarrow> bool" where
  "isdigit s \<longleftrightarrow> s \<noteq> [] \<and> list_all (\<lambda>c. c \<in> set ''0123456789'') s"

definition digit_value :: "char \<Rightarrow> int" where
  "digit_value c = int (length (takeWhile (\<lambda>d. d \<noteq> c) ''0123456789''))"

definition int_of_digits :: "string \<Rightarrow> int" where
  "int_of_digits s = foldl (\<lambda>a c. 10 * a + digit_value c) 0 s"

text \<open>
  What one line typed at the prompt makes \<^verbatim>\<open>run_interactive\<close> call: the loop is
  left, or one of the four operations is called with the arguments shown, or the line
  is not a command. \<open>Watch crypto_id interval\<close> is the call
  \<^verbatim>\<open>watch_crypto(crypto_id, interval)\<close>.
\<close>

datatype call =
    Break
  | Top int
  | Search string
  | Price string
  | Watch string int
  | Unknown

text \<open>The default of the parameter \<^verbatim>\<open>interval\<close> of \<^verbatim>\<open>watch_crypto\<close>.\<close>

definition default_interval :: int where
  "default_interval = 30"

definition dispatch :: "string \<Rightarrow> call" where
  "dispatch typed =
     (let cmd = lower (strip typed)
      in if cmd \<in> set [''quit'', ''exit'', ''q''] then Break
         else if startswith cmd ''top'' then
           (let parts = split cmd
            in Top (if length parts > 1 \<and> isdigit (parts ! 1)
                    then int_of_digits (parts ! 1) else 10))
         else if startswith cmd ''search '' then Search (drop 7 cmd)
         else if startswith cmd ''price '' then Price (drop 6 cmd)
         else if startswith cmd ''watch '' then Watch (drop 6 cmd) default_interval
         else Unknown)"

section \<open>Properties\<close>

subsection \<open>Evaluating the numerals\<close>

text \<open>
  The equations of \<open>digits\<close> and \<open>group3\<close> are recursive without a pattern, so the
  simplifier gets them with their conditions.
\<close>

declare digits.simps [simp del] group3.simps [simp del]

lemma digits_lt10 [simp]: "n < 10 \<Longrightarrow> digits n = [digit_char n]"
  by (simp add: digits.simps)

lemma digits_ge10 [simp]: "10 \<le> n \<Longrightarrow> digits n = digits (n div 10) @ [digit_char n]"
  by (simp add: digits.simps)

lemma group3_lt1000 [simp]: "n < 1000 \<Longrightarrow> group3 n = digits n"
  by (simp add: group3.simps)

lemma group3_ge1000 [simp]:
  "1000 \<le> n \<Longrightarrow> group3 n = group3 (n div 1000) @ '','' @
     [digit_char (n div 100), digit_char (n div 10), digit_char n]"
  by (subst group3.simps) simp

lemma floor_rat_numeral_div [simp]:
  "\<lfloor>numeral a / numeral b :: rat\<rfloor> = numeral a div numeral b"
  by (metis floor_divide_of_int_eq of_int_numeral)

lemma replicate_numeral [simp]: "replicate (numeral k) x = x # replicate (pred_numeral k) x"
  by (subst numeral_eq_Suc) (simp only: replicate.simps)

lemma last_digits_numeral [simp]:
  "last_digits (numeral k) n = last_digits (pred_numeral k) (n div 10) @ [digit_char n]"
  by (subst numeral_eq_Suc) (simp only: last_digits.simps)

lemma digit_char_mod [simp]: "digit_char (n mod 10) = digit_char n"
  by (simp add: digit_char_def)

text \<open>The definitions that evaluate a text, a cycle and a session on given data.\<close>

lemmas eval_text =
  and_then_def subscript_def get_default_def subscript_json_def get_json_def number_def
  format_json_def format_price_json_def format_change_json_def upper_json_def short_name_def
  upper_def upper_char_def ljust_def line_def
  format_price_def format_change_def format_num_def format_float_def float_of_def
  num_ge_def num_gt_def num_lt_def
  format_f_def scaled_def round_half_even_def digit_char_def
  green_def red_def reset_def

lemmas eval_watch =
  watch_crypto_def watch_cycle_def watch_render_def watch_line_def get_crypto_price_def
  price_request_def time_sleep_def banner_def stop_notice_def str_int_def vs_currency_def

subsection \<open>The characters of a numeral\<close>

lemma digit_char_digit: "digit_char d \<in> set ''0123456789''"
proof -
  have "d mod 10 < length ''0123456789''" by simp
  then show ?thesis unfolding digit_char_def by (rule nth_mem)
qed

lemma digits_chars: "set (digits n) \<subseteq> set ''0123456789''"
proof (induction n rule: digits.induct)
  case (1 n)
  show ?case
  proof (cases "n < 10")
    case True
    then show ?thesis using digit_char_digit [of n] by simp
  next
    case False
    then have "digits n = digits (n div 10) @ [digit_char n]" by simp
    with 1 False digit_char_digit [of n] show ?thesis by auto
  qed
qed

lemma no_comma_digits: "CHR '','' \<notin> set (digits n)"
  using digits_chars [of n] by auto

lemma no_comma_digit_char: "digit_char d \<noteq> CHR '',''"
  using digit_char_digit [of d] by auto

lemma comma_group3: "1000 \<le> n \<Longrightarrow> CHR '','' \<in> set (group3 n)"
  by simp

subsection \<open>The digits after the point\<close>

lemma last_digits_0: "last_digits p 0 = replicate p CHR ''0''"
  by (induction p) (simp_all add: digit_char_def replicate_append_same)

lemma pad_digits_Suc:
  "n < 10 ^ Suc p \<Longrightarrow>
   replicate (Suc p - length (digits n)) CHR ''0'' @ digits n = last_digits (Suc p) n"
proof (induction p arbitrary: n)
  case 0
  then show ?case by simp
next
  case (Suc p)
  show ?case
  proof (cases "n < 10")
    case True
    then have "n div 10 = 0" by simp
    with True show ?thesis by (simp add: last_digits_0 replicate_append_same)
  next
    case False
    then have dn: "digits n = digits (n div 10) @ [digit_char n]" by simp
    from Suc.prems have lt: "n div 10 < 10 ^ Suc p" by simp
    have "Suc (Suc p) - length (digits n) = Suc p - length (digits (n div 10))"
      using dn by simp
    with Suc.IH [OF lt] dn show ?thesis by simp
  qed
qed

lemma pad_digits:
  "0 < p \<Longrightarrow> n < 10 ^ p \<Longrightarrow>
   replicate (p - length (digits n)) CHR ''0'' @ digits n = last_digits p n"
  using pad_digits_Suc [of n "p - 1"] by simp

lemma last_digits_mod: "last_digits p (n mod 10 ^ p) = last_digits p n"
proof (induction p arbitrary: n)
  case 0
  then show ?case by simp
next
  case (Suc p)
  have "n mod 10 ^ Suc p div 10 = (n div 10) mod 10 ^ p"
    by (simp add: mod_mult2_eq)
  moreover have "digit_char (n mod 10 ^ Suc p) = digit_char n"
    by (metis digit_char_mod mod_mod_cancel dvd_triv_left power_Suc)
  ultimately show ?case using Suc.IH [of "n div 10"] by simp
qed

text \<open>The text of a formatted number: sign, integer part, point, and \<open>p\<close> digits.\<close>

lemma format_f_shape:
  "format_f sep p x =
     (if x < 0 then ''-'' else '''') @
     (if sep then group3 (scaled p x div 10 ^ p) else digits (scaled p x div 10 ^ p)) @
     (if p = 0 then '''' else ''.'' @ last_digits p (scaled p x))"
proof -
  have "scaled p x mod 10 ^ p < 10 ^ p" by simp
  then show ?thesis
    unfolding format_f_def Let_def
    by (cases "p = 0") (simp_all only: pad_digits last_digits_mod, simp_all)
qed

lemma last_digits_2: "last_digits 2 n = [digit_char (n div 10), digit_char n]"
  by simp

lemma last_digits_4:
  "last_digits 4 n =
     [digit_char (n div 1000), digit_char (n div 100), digit_char (n div 10), digit_char n]"
  by (simp add: div_mult2_eq [symmetric])

lemma last_digits_8:
  "last_digits 8 n =
     [digit_char (n div 10000000), digit_char (n div 1000000), digit_char (n div 100000),
      digit_char (n div 10000), digit_char (n div 1000), digit_char (n div 100),
      digit_char (n div 10), digit_char n]"
  by (simp add: div_mult2_eq [symmetric])

subsection \<open>Rounding\<close>

lemma round_half_even_ge: "of_int k \<le> x \<Longrightarrow> k \<le> round_half_even x"
proof -
  assume "of_int k \<le> x"
  then have "k \<le> \<lfloor>x\<rfloor>" by (simp add: le_floor_iff)
  then show ?thesis by (simp add: round_half_even_def Let_def)
qed

text \<open>The number shown differs from the number given by at most half a unit.\<close>

lemma round_half_even_near: "\<bar>of_int (round_half_even x) - x\<bar> \<le> 1 / 2"
proof -
  have "of_int \<lfloor>x\<rfloor> \<le> x" "x < of_int \<lfloor>x\<rfloor> + 1" by linarith+
  then show ?thesis by (auto simp: round_half_even_def Let_def)
qed

lemma scaled_ge: "of_nat k \<le> \<bar>x\<bar> * 10 ^ p \<Longrightarrow> k \<le> scaled p x"
  using round_half_even_ge [of "int k" "\<bar>x\<bar> * 10 ^ p"] by (simp add: scaled_def)

lemma scaled_2_ge:
  assumes "1000 \<le> price"
  shows "1000 \<le> scaled 2 price div 100"
proof -
  from assms have "of_nat 100000 \<le> \<bar>price\<bar> * 10 ^ 2" by simp
  then have "100000 \<le> scaled 2 price" by (rule scaled_ge)
  then show ?thesis by simp
qed

subsection \<open>Integers as floats\<close>

declare bit_length.simps [simp del]

lemma bit_length_0 [simp]: "bit_length 0 = 0"
  by (simp add: bit_length.simps)

lemma bit_length_pos: "0 < n \<Longrightarrow> bit_length n = 1 + bit_length (n div 2)"
  by (subst bit_length.simps) simp

lemma bit_length_bounds: "0 < n \<Longrightarrow> 2 ^ (bit_length n - 1) \<le> n \<and> n < 2 ^ bit_length n"
proof (induction n rule: bit_length.induct)
  case (1 n)
  show ?case
  proof (cases "n div 2 = 0")
    case True
    with "1.prems" have "n = 1" by (simp add: div_eq_0_iff)
    then show ?thesis by (simp add: bit_length_pos)
  next
    case False
    then have pos: "0 < n div 2" by simp
    with "1.IH" "1.prems" have ih: "2 ^ (bit_length (n div 2) - 1) \<le> n div 2"
      "n div 2 < 2 ^ bit_length (n div 2)" by simp_all
    have bl: "bit_length n = Suc (bit_length (n div 2))"
      using "1.prems" by (simp add: bit_length_pos)
    have b1: "0 < bit_length (n div 2)" using pos by (simp add: bit_length_pos)
    have "2 ^ (bit_length n - 1) = 2 * 2 ^ (bit_length (n div 2) - 1)"
      using bl b1 by (cases "bit_length (n div 2)") simp_all
    also have "\<dots> \<le> 2 * (n div 2)" using ih(1) by simp
    also have "\<dots> \<le> n" by simp
    finally have lo: "2 ^ (bit_length n - 1) \<le> n" .
    have "n < 2 * (n div 2) + 2" by presburger
    also have "\<dots> \<le> 2 * 2 ^ bit_length (n div 2)" using ih(2) by simp
    finally have "n < 2 ^ bit_length n" using bl by simp
    with lo show ?thesis by simp
  qed
qed

lemma bit_length_le: "n < 2 ^ k \<Longrightarrow> bit_length n \<le> k"
proof (cases "n = 0")
  case True
  then show ?thesis by simp
next
  case False
  assume "n < 2 ^ k"
  then have lt: "n < 2 ^ k" .
  from bit_length_bounds [of n] False have "2 ^ (bit_length n - 1) \<le> n" by simp
  from this lt have "(2::nat) ^ (bit_length n - 1) < 2 ^ k" by (rule le_less_trans)
  then have "bit_length n - 1 < k" by simp
  then show ?thesis by simp
qed

lemma bit_length_ge: "2 ^ k \<le> n \<Longrightarrow> k < bit_length n"
proof -
  assume h: "2 ^ k \<le> n"
  then have "0 < n" by (cases "n = 0") simp_all
  with bit_length_bounds [of n] have "n < 2 ^ bit_length n" by simp
  with h have "(2::nat) ^ k < 2 ^ bit_length n" by (rule le_less_trans)
  then show ?thesis by simp
qed

text \<open>An integer below \<open>2\<^sup>5\<^sup>3\<close> in magnitude is a float.\<close>

lemma round_half_even_of_int [simp]: "round_half_even (of_int k) = k"
  by (simp add: round_half_even_def)

lemma nearest_float_exact: "\<bar>i\<bar> < 2 ^ 53 \<Longrightarrow> nearest_float i = of_int i"
proof -
  assume "\<bar>i\<bar> < 2 ^ 53"
  then have "nat \<bar>i\<bar> < 2 ^ 53" by simp
  then have e: "bit_length (nat \<bar>i\<bar>) - 53 = 0" using bit_length_le [of "nat \<bar>i\<bar>" 53] by simp
  have "(of_nat (nat \<bar>i\<bar>) :: rat) = of_int \<bar>i\<bar>" by simp
  then have "round_half_even (of_nat (nat \<bar>i\<bar>) / 2 ^ 0) = \<bar>i\<bar>"
    by (simp only: power_0 div_by_1 round_half_even_of_int)
  moreover have "sgn i * \<bar>i\<bar> = i" by (simp add: mult_sgn_abs)
  ultimately show ?thesis
    by (simp only: nearest_float_def Let_def e power_0 mult_1_right)
qed

lemma float_of_int_exact: "\<bar>i\<bar> < 2 ^ 53 \<Longrightarrow> float_of_int i = Inr (Finite (of_int i))"
proof -
  assume h: "\<bar>i\<bar> < 2 ^ 53"
  then have "of_int \<bar>i\<bar> < (of_int (2 ^ 53) :: rat)" by (simp only: of_int_less_iff)
  then have "\<bar>of_int i :: rat\<bar> < 2 ^ 53" by simp
  also have "(2::rat) ^ 53 \<le> 2 ^ 1024" by (rule power_increasing) simp_all
  finally have "\<not> 2 ^ 1024 \<le> \<bar>of_int i :: rat\<bar>" by simp
  then show ?thesis using h by (simp only: float_of_int_def nearest_float_exact if_False)
qed

text \<open>A larger one keeps its sign and its size.\<close>

lemma nearest_float_large:
  assumes "2 ^ k \<le> \<bar>i\<bar>" and "53 \<le> k"
  shows "2 ^ k \<le> \<bar>nearest_float i\<bar>"
    and "0 < i \<Longrightarrow> 0 < nearest_float i"
    and "i < 0 \<Longrightarrow> nearest_float i < 0"
proof -
  define a where "a = nat \<bar>i\<bar>"
  define e where "e = bit_length a - 53"
  define q where "q = round_half_even (of_nat a / 2 ^ e)"
  have nf: "nearest_float i = of_int (sgn i * q) * 2 ^ e"
    by (simp only: nearest_float_def Let_def a_def e_def q_def)
  have "int (2 ^ k) \<le> \<bar>i\<bar>" using assms(1) by simp
  then have a: "2 ^ k \<le> a" unfolding a_def by (simp only: nat_le_iff [symmetric] nat_int)
  from bit_length_ge [OF a] assms(2) have e: "k \<le> e + 52" "bit_length a - 1 = e + 52"
    unfolding e_def by simp_all
  have apos: "0 < a" using a by (cases "a = 0") simp_all
  from bit_length_bounds [OF apos] e(2) have "2 ^ (e + 52) \<le> a" by simp
  then have "(of_nat (2 ^ (e + 52)) :: rat) \<le> of_nat a" by (simp only: of_nat_le_iff)
  then have "(2::rat) ^ 52 * 2 ^ e \<le> of_nat a" by (simp add: power_add mult.commute)
  then have "(2::rat) ^ 52 \<le> of_nat a / 2 ^ e" by (simp add: pos_le_divide_eq)
  then have "of_int (2 ^ 52) \<le> (of_nat a / 2 ^ e :: rat)" by simp
  then have q: "2 ^ 52 \<le> q" unfolding q_def by (rule round_half_even_ge)
  then have qpos: "0 < q" by (rule less_le_trans [rotated]) simp
  have "(2::int) ^ k \<le> 2 ^ (e + 52)" using e(1) by (simp only: power_increasing_iff one_less_numeral_iff semiring_norm)
  also have "\<dots> = 2 ^ 52 * 2 ^ e" by (simp add: power_add mult.commute)
  also have "\<dots> \<le> q * 2 ^ e" using q by (rule mult_right_mono) simp
  finally have big: "(2::int) ^ k \<le> q * 2 ^ e" .
  have i0: "i \<noteq> 0" using assms(1) by auto
  have "\<bar>sgn i * q * 2 ^ e\<bar> = q * 2 ^ e"
    using i0 qpos by (simp add: abs_mult abs_sgn_eq)
  moreover have "nearest_float i = of_int (sgn i * q * 2 ^ e)"
    by (simp add: nf)
  ultimately have "\<bar>nearest_float i\<bar> = of_int (q * 2 ^ e)"
    by (simp only: of_int_abs [symmetric])
  moreover from big have "(of_int (2 ^ k) :: rat) \<le> of_int (q * 2 ^ e)" by (simp only: of_int_le_iff)
  ultimately show "2 ^ k \<le> \<bar>nearest_float i\<bar>" by simp
  show "0 < nearest_float i" if "0 < i"
    using that qpos by (simp add: nf)
  show "nearest_float i < 0" if "i < 0"
    using that qpos by (simp add: nf mult_less_0_iff)
qed

lemma float_of_int_overflow: "2 ^ 1024 \<le> \<bar>i\<bar> \<Longrightarrow> float_of_int i = Inl OverflowError"
  using nearest_float_large(1) [of 1024 i] by (simp add: float_of_int_def)

text \<open>The sign and the size of the float that is shown, for an integer that has one.\<close>

lemma nearest_float_sign:
  "(0 < nearest_float i \<longleftrightarrow> 0 < i) \<and> (nearest_float i < 0 \<longleftrightarrow> i < 0)"
proof (cases "\<bar>i\<bar> < 2 ^ 53")
  case True
  then show ?thesis by (simp add: nearest_float_exact)
next
  case False
  then have big: "2 ^ 53 \<le> \<bar>i\<bar>" by simp
  have "i \<noteq> 0" using big by auto
  then consider "0 < i" | "i < 0" by linarith
  then show ?thesis
  proof cases
    case 1
    with nearest_float_large(2) [OF big] show ?thesis by auto
  next
    case 2
    with nearest_float_large(3) [OF big] show ?thesis by auto
  qed
qed

lemma nearest_float_ge_1000: "1000 \<le> i \<Longrightarrow> 1000 \<le> nearest_float i"
proof (cases "\<bar>i\<bar> < 2 ^ 53")
  case True
  assume "1000 \<le> i"
  with True show ?thesis by (simp add: nearest_float_exact)
next
  case False
  assume h: "1000 \<le> i"
  from False have big: "2 ^ 53 \<le> \<bar>i\<bar>" by simp
  from h nearest_float_large(2) [OF big] have "0 < nearest_float i" by simp
  with nearest_float_large(1) [OF big] have "2 ^ 53 \<le> nearest_float i" by simp
  then show ?thesis by simp
qed

subsection \<open>The float that is shown\<close>

text \<open>
  A number is shown as the finite float \<open>x\<close> when it is that float, or an integer
  that \<open>x\<close> is nearest to. The comparisons of the number decide the sign of \<open>x\<close>.
\<close>

lemma shown_cases:
  assumes "float_of n = Inr (Finite x)"
  shows "n = PyFloat (Finite x) \<or> (\<exists>i. n = PyInt i \<and> x = nearest_float i)"
  using assms
  by (cases n) (auto simp: float_of_def float_of_int_def split: if_splits)

lemma shown_compare:
  assumes "float_of n = Inr (Finite x)"
  shows "num_gt n 0 \<longleftrightarrow> 0 < x"
    and "num_lt n 0 \<longleftrightarrow> x < 0"
    and "num_ge n 1000 \<Longrightarrow> 1000 \<le> x"
    and "num_lt n k \<longleftrightarrow> \<not> num_ge n k"
    and "num_ge n 1 \<Longrightarrow> 0 < x"
    and "num_ge n 1000 \<Longrightarrow> num_ge n 1"
  using shown_cases [OF assms] nearest_float_sign nearest_float_ge_1000
  by (auto simp: num_gt_def num_lt_def num_ge_def)

lemma format_num_shown:
  "float_of n = Inr (Finite x) \<Longrightarrow> format_num sep p n = Inr (format_f sep p x)"
  by (simp add: format_num_def and_then_def format_float_def)

lemma format_f_8:
  "format_f False 8 x =
     (if x < 0 then ''-'' else []) @ digits (scaled 8 x div 100000000) @ ''.'' @
     [digit_char (scaled 8 x div 10000000), digit_char (scaled 8 x div 1000000),
      digit_char (scaled 8 x div 100000), digit_char (scaled 8 x div 10000),
      digit_char (scaled 8 x div 1000), digit_char (scaled 8 x div 100),
      digit_char (scaled 8 x div 10), digit_char (scaled 8 x)]"
  by (simp add: format_f_shape last_digits_8 del: last_digits_numeral)

lemma format_f_4:
  "format_f False 4 x =
     (if x < 0 then ''-'' else []) @ digits (scaled 4 x div 10000) @ ''.'' @
     [digit_char (scaled 4 x div 1000), digit_char (scaled 4 x div 100),
      digit_char (scaled 4 x div 10), digit_char (scaled 4 x)]"
  by (simp add: format_f_shape last_digits_4 del: last_digits_numeral)

lemma format_f_sep_2:
  "format_f True 2 x =
     (if x < 0 then ''-'' else []) @ group3 (scaled 2 x div 100) @ ''.'' @
     [digit_char (scaled 2 x div 10), digit_char (scaled 2 x)]"
  by (simp add: format_f_shape last_digits_2 del: last_digits_numeral)

subsection \<open>The price formatter\<close>

text \<open>
  Claim C5, as stated, fails for the numbers that are not shown as a finite float. The
  positive infinity is at least 1000 and is shown as \<^verbatim>\<open>$inf\<close>, not-a-number as
  \<^verbatim>\<open>$nan\<close>, both without decimal places, and for an integer beyond the floats, such
  as \<open>10\<^sup>3\<^sup>0\<^sup>9\<close>, the format raises \<^verbatim>\<open>OverflowError\<close>.
\<close>

theorem format_price_tiers_counterexample:
  "num_ge (PyFloat PosInf) 1000 \<and> format_price (PyFloat PosInf) = Inr ''$inf'' \<and>
   format_price (PyFloat NaN) = Inr ''$nan'' \<and>
   num_ge (PyInt (10 ^ 309)) 1000 \<and> format_price (PyInt (10 ^ 309)) = Inl OverflowError"
proof -
  have "float_of_int (10 ^ 309) = Inl OverflowError"
    by (rule float_of_int_overflow) simp
  then show ?thesis
    by (simp add: format_price_def format_num_def float_of_def format_float_def and_then_def
        num_ge_def)
qed

text \<open>The three branches of \<^verbatim>\<open>format_price\<close>, for a number that is shown as \<open>x\<close>.\<close>

lemma format_price_tier_1:
  assumes "float_of price = Inr (Finite x)" and "num_ge price 1000"
  shows "format_price price =
           Inr (''$'' @ group3 (scaled 2 x div 100) @ ''.'' @
                [digit_char (scaled 2 x div 10), digit_char (scaled 2 x)])"
    and "CHR '','' \<in> set (group3 (scaled 2 x div 100))"
proof -
  from shown_compare(3) [OF assms] have x: "1000 \<le> x" .
  then have "\<not> x < 0" by simp
  then have f: "format_f True 2 x = group3 (scaled 2 x div 100) @ ''.'' @
                [digit_char (scaled 2 x div 10), digit_char (scaled 2 x)]"
    by (simp only: format_f_sep_2 if_False append_Nil)
  have "format_price price = and_then (format_num True 2 price) (\<lambda>s. Inr (''$'' @ s))"
    unfolding format_price_def using assms(2) by (rule if_P)
  also have "\<dots> = Inr (''$'' @ format_f True 2 x)"
    by (simp only: format_num_shown [OF assms(1)] and_then_def sum.case)
  finally show "format_price price =
           Inr (''$'' @ group3 (scaled 2 x div 100) @ ''.'' @
                [digit_char (scaled 2 x div 10), digit_char (scaled 2 x)])"
    by (simp only: f)
  from x show "CHR '','' \<in> set (group3 (scaled 2 x div 100))"
    by (intro comma_group3 scaled_2_ge)
qed

lemma format_price_tier_2:
  assumes "float_of price = Inr (Finite x)" and "num_ge price 1" and "num_lt price 1000"
  shows "format_price price =
           Inr (''$'' @ digits (scaled 4 x div 10000) @ ''.'' @
                [digit_char (scaled 4 x div 1000), digit_char (scaled 4 x div 100),
                 digit_char (scaled 4 x div 10), digit_char (scaled 4 x)])"
proof -
  from shown_compare(5) [OF assms(1,2)] have "\<not> x < 0" by simp
  then have f: "format_f False 4 x = digits (scaled 4 x div 10000) @ ''.'' @
                [digit_char (scaled 4 x div 1000), digit_char (scaled 4 x div 100),
                 digit_char (scaled 4 x div 10), digit_char (scaled 4 x)]"
    by (simp only: format_f_4 if_False append_Nil)
  from assms(3) have n: "\<not> num_ge price 1000"
    using shown_compare(4) [OF assms(1), of 1000] by blast
  have "format_price price =
      (if num_ge price 1 then and_then (format_num False 4 price) (\<lambda>s. Inr (''$'' @ s))
       else and_then (format_num False 8 price) (\<lambda>s. Inr (''$'' @ s)))"
    unfolding format_price_def using n by (rule if_not_P)
  also have "\<dots> = and_then (format_num False 4 price) (\<lambda>s. Inr (''$'' @ s))"
    using assms(2) by (rule if_P)
  also have "\<dots> = Inr (''$'' @ format_f False 4 x)"
    by (simp only: format_num_shown [OF assms(1)] and_then_def sum.case)
  finally show ?thesis by (simp only: f)
qed

lemma format_price_tier_3:
  assumes "float_of price = Inr (Finite x)" and "num_lt price 1"
  shows "format_price price =
           Inr (''$'' @ (if x < 0 then ''-'' else []) @
                digits (scaled 8 x div 100000000) @ ''.'' @
                [digit_char (scaled 8 x div 10000000), digit_char (scaled 8 x div 1000000),
                 digit_char (scaled 8 x div 100000), digit_char (scaled 8 x div 10000),
                 digit_char (scaled 8 x div 1000), digit_char (scaled 8 x div 100),
                 digit_char (scaled 8 x div 10), digit_char (scaled 8 x)])"
proof -
  from assms(2) have n1: "\<not> num_ge price 1"
    using shown_compare(4) [OF assms(1), of 1] by blast
  with shown_compare(6) [OF assms(1)] have n: "\<not> num_ge price 1000" by blast
  have "format_price price =
      (if num_ge price 1 then and_then (format_num False 4 price) (\<lambda>s. Inr (''$'' @ s))
       else and_then (format_num False 8 price) (\<lambda>s. Inr (''$'' @ s)))"
    unfolding format_price_def using n by (rule if_not_P)
  also have "\<dots> = and_then (format_num False 8 price) (\<lambda>s. Inr (''$'' @ s))"
    using n1 by (rule if_not_P)
  also have "\<dots> = Inr (''$'' @ format_f False 8 x)"
    by (simp only: format_num_shown [OF assms(1)] and_then_def sum.case)
  finally show ?thesis by (simp only: format_f_8)
qed

lemma no_comma_tier_2:
  "CHR '','' \<notin> set (''$'' @ digits n @ ''.'' @
     [digit_char a, digit_char b, digit_char c, digit_char d])"
  by (simp add: no_comma_digits no_comma_digit_char no_comma_digit_char [symmetric])

lemma no_comma_tier_3:
  "CHR '','' \<notin> set (''$'' @ (if neg then ''-'' else []) @ digits n @ ''.'' @
     [digit_char a, digit_char b, digit_char c, digit_char d,
      digit_char e, digit_char f, digit_char g, digit_char h])"
  by (simp add: no_comma_digits no_comma_digit_char no_comma_digit_char [symmetric])

text \<open>Which numbers are shown as a finite float, and which raise.\<close>

lemma float_of_float [simp]: "float_of (PyFloat x) = Inr x"
  by (simp add: float_of_def)

lemma float_of_small_int: "\<bar>i\<bar> < 2 ^ 53 \<Longrightarrow> float_of (PyInt i) = Inr (Finite (of_int i))"
  by (simp add: float_of_def float_of_int_exact)

lemma float_of_large_int: "2 ^ 1024 \<le> \<bar>i\<bar> \<Longrightarrow> float_of (PyInt i) = Inl OverflowError"
  by (simp add: float_of_def float_of_int_overflow)

lemma format_price_overflow:
  "float_of price = Inl e \<Longrightarrow> format_price price = Inl e"
  by (simp add: format_price_def format_num_def and_then_def)

lemma format_change_overflow:
  "float_of change = Inl e \<Longrightarrow> format_change change = Inl e"
  by (simp add: format_change_def format_num_def and_then_def)

text \<open>
  Claim C5, amended. For every finite numeric value, that is a finite float, or an
  integer within the range of the floats, which is shown as the float \<open>x\<close> nearest to
  it, \<^verbatim>\<open>format_price\<close> has three tiers, chosen by comparing the value with 1000 and
  with 1. A value of at least 1000 is shown with the currency symbol, the integer part
  in groups of three digits separated by commas, and two decimal places. A value from 1
  up to 1000 is shown with the symbol, the integer part without separators, and four
  decimal places. A value below 1 is shown with the symbol and eight decimal places,
  again without separators. The digits are those of \<open>x\<close> rounded to the places shown
  (\<open>scaled\<close>). The negative zero is shown as \<^verbatim>\<open>$-0.00000000\<close>. In particular
  \<^verbatim>\<open>format_price(1500)\<close> is \<^verbatim>\<open>$1,500.00\<close>, \<^verbatim>\<open>format_price(1)\<close> is
  \<^verbatim>\<open>$1.0000\<close> and \<^verbatim>\<open>format_price(0.5)\<close> is \<^verbatim>\<open>$0.50000000\<close>.
\<close>

theorem format_price_tiers:
  assumes "float_of price = Inr (Finite x)"
  shows
   "(num_ge price 1000 \<longrightarrow>
      format_price price =
        Inr (''$'' @ group3 (scaled 2 x div 100) @ ''.'' @
             [digit_char (scaled 2 x div 10), digit_char (scaled 2 x)]) \<and>
      CHR '','' \<in> set (group3 (scaled 2 x div 100))) \<and>
    (num_ge price 1 \<and> num_lt price 1000 \<longrightarrow>
      format_price price =
        Inr (''$'' @ digits (scaled 4 x div 10000) @ ''.'' @
             [digit_char (scaled 4 x div 1000), digit_char (scaled 4 x div 100),
              digit_char (scaled 4 x div 10), digit_char (scaled 4 x)]) \<and>
      CHR '','' \<notin> set (''$'' @ digits (scaled 4 x div 10000) @ ''.'' @
             [digit_char (scaled 4 x div 1000), digit_char (scaled 4 x div 100),
              digit_char (scaled 4 x div 10), digit_char (scaled 4 x)])) \<and>
    (num_lt price 1 \<longrightarrow>
      format_price price =
        Inr (''$'' @ (if x < 0 then ''-'' else []) @
             digits (scaled 8 x div 100000000) @ ''.'' @
             [digit_char (scaled 8 x div 10000000), digit_char (scaled 8 x div 1000000),
              digit_char (scaled 8 x div 100000), digit_char (scaled 8 x div 10000),
              digit_char (scaled 8 x div 1000), digit_char (scaled 8 x div 100),
              digit_char (scaled 8 x div 10), digit_char (scaled 8 x)]) \<and>
      CHR '','' \<notin> set (''$'' @ (if x < 0 then ''-'' else []) @
             digits (scaled 8 x div 100000000) @ ''.'' @
             [digit_char (scaled 8 x div 10000000), digit_char (scaled 8 x div 1000000),
              digit_char (scaled 8 x div 100000), digit_char (scaled 8 x div 10000),
              digit_char (scaled 8 x div 1000), digit_char (scaled 8 x div 100),
              digit_char (scaled 8 x div 10), digit_char (scaled 8 x)])) \<and>
    format_price (PyFloat NegZero) = Inr ''$-0.00000000'' \<and>
    format_price (PyInt 1500) = Inr ''$1,500.00'' \<and>
    format_price (PyInt 1) = Inr ''$1.0000'' \<and>
    format_price (PyFloat (Finite (1 / 2))) = Inr ''$0.50000000''"
proof (intro conjI impI)
  assume "num_ge price 1000"
  with assms show "format_price price =
        Inr (''$'' @ group3 (scaled 2 x div 100) @ ''.'' @
             [digit_char (scaled 2 x div 10), digit_char (scaled 2 x)])"
    and "CHR '','' \<in> set (group3 (scaled 2 x div 100))"
    by (rule format_price_tier_1)+
next
  assume "num_ge price 1 \<and> num_lt price 1000"
  then have "num_ge price 1" "num_lt price 1000" by simp_all
  with assms show "format_price price =
        Inr (''$'' @ digits (scaled 4 x div 10000) @ ''.'' @
             [digit_char (scaled 4 x div 1000), digit_char (scaled 4 x div 100),
              digit_char (scaled 4 x div 10), digit_char (scaled 4 x)])"
    by (rule format_price_tier_2)
next
  show "CHR '','' \<notin> set (''$'' @ digits (scaled 4 x div 10000) @ ''.'' @
             [digit_char (scaled 4 x div 1000), digit_char (scaled 4 x div 100),
              digit_char (scaled 4 x div 10), digit_char (scaled 4 x)])"
    by (rule no_comma_tier_2)
next
  assume "num_lt price 1"
  with assms show "format_price price =
        Inr (''$'' @ (if x < 0 then ''-'' else []) @
             digits (scaled 8 x div 100000000) @ ''.'' @
             [digit_char (scaled 8 x div 10000000), digit_char (scaled 8 x div 1000000),
              digit_char (scaled 8 x div 100000), digit_char (scaled 8 x div 10000),
              digit_char (scaled 8 x div 1000), digit_char (scaled 8 x div 100),
              digit_char (scaled 8 x div 10), digit_char (scaled 8 x)])"
    by (rule format_price_tier_3)
next
  show "CHR '','' \<notin> set (''$'' @ (if x < 0 then ''-'' else []) @
             digits (scaled 8 x div 100000000) @ ''.'' @
             [digit_char (scaled 8 x div 10000000), digit_char (scaled 8 x div 1000000),
              digit_char (scaled 8 x div 100000), digit_char (scaled 8 x div 10000),
              digit_char (scaled 8 x div 1000), digit_char (scaled 8 x div 100),
              digit_char (scaled 8 x div 10), digit_char (scaled 8 x)])"
    by (rule no_comma_tier_3)
next
  show "format_price (PyFloat NegZero) = Inr ''$-0.00000000''"
    by (simp add: format_price_def format_num_def format_float_def and_then_def num_ge_def
        format_f_def scaled_def round_half_even_def digit_char_def)
next
  have "float_of (PyInt 1500) = Inr (Finite 1500)"
    using float_of_small_int [of 1500] by simp
  then show "format_price (PyInt 1500) = Inr ''$1,500.00''"
    by (simp add: format_price_def format_num_def format_float_def and_then_def num_ge_def
        format_f_def scaled_def round_half_even_def digit_char_def)
next
  have "float_of (PyInt 1) = Inr (Finite 1)"
    using float_of_small_int [of 1] by simp
  then show "format_price (PyInt 1) = Inr ''$1.0000''"
    by (simp add: format_price_def format_num_def format_float_def and_then_def num_ge_def
        format_f_def scaled_def round_half_even_def digit_char_def)
next
  show "format_price (PyFloat (Finite (1 / 2))) = Inr ''$0.50000000''"
    by (simp add: format_price_def format_num_def format_float_def and_then_def num_ge_def
        format_f_def scaled_def round_half_even_def digit_char_def)
qed

text \<open>Numerals for the examples.\<close>

lemma bit_length_eq: "2 ^ k \<le> n \<Longrightarrow> n < 2 ^ Suc k \<Longrightarrow> bit_length n = Suc k"
  using bit_length_ge [of k n] bit_length_le [of n "Suc k"] by simp

text \<open>The integer \<open>2\<^sup>5\<^sup>3 + 1\<close> is not a float: it is shown as \<open>2\<^sup>5\<^sup>3\<close>.\<close>

lemma nearest_float_2_53_1:
  "nearest_float 9007199254740993 = 9007199254740992"
  "nearest_float (- 9007199254740993) = - 9007199254740992"
proof -
  have "bit_length 9007199254740993 = Suc 53"
    by (rule bit_length_eq) simp_all
  then show "nearest_float 9007199254740993 = 9007199254740992"
    "nearest_float (- 9007199254740993) = - 9007199254740992"
    by (simp_all add: nearest_float_def round_half_even_def)
qed

lemma float_of_2_53_1:
  "float_of (PyInt 9007199254740993) = Inr (Finite 9007199254740992)"
  "float_of (PyInt (- 9007199254740993)) = Inr (Finite (- 9007199254740992))"
proof -
  have "\<not> (2::rat) ^ 1024 \<le> 9007199254740992"
  proof -
    have "(9007199254740992::rat) = 2 ^ 53" by simp
    moreover have "(2::rat) ^ 53 < 2 ^ 1024" by (rule power_strict_increasing) simp_all
    ultimately show ?thesis by (simp only: not_le)
  qed
  then show "float_of (PyInt 9007199254740993) = Inr (Finite 9007199254740992)"
    "float_of (PyInt (- 9007199254740993)) = Inr (Finite (- 9007199254740992))"
    by (simp_all only: float_of_def pynum.case float_of_int_def nearest_float_2_53_1
        abs_minus abs_numeral if_False)
qed

lemmas eval_format =
  format_f_def scaled_def round_half_even_def digit_char_def

text \<open>One float in each tier, and the integer \<open>2\<^sup>5\<^sup>3 + 1\<close>.\<close>

theorem format_price_tiers_witness:
  "float_of (PyFloat (Finite 2500)) = Inr (Finite 2500) \<and>
   num_ge (PyFloat (Finite 2500)) 1000 \<and>
   format_price (PyFloat (Finite 2500)) = Inr ''$2,500.00'' \<and>
   float_of (PyFloat (Finite (5 / 2))) = Inr (Finite (5 / 2)) \<and>
   num_ge (PyFloat (Finite (5 / 2))) 1 \<and> num_lt (PyFloat (Finite (5 / 2))) 1000 \<and>
   format_price (PyFloat (Finite (5 / 2))) = Inr ''$2.5000'' \<and>
   float_of (PyFloat (Finite (1 / 4))) = Inr (Finite (1 / 4)) \<and>
   num_lt (PyFloat (Finite (1 / 4))) 1 \<and>
   format_price (PyFloat (Finite (1 / 4))) = Inr ''$0.25000000'' \<and>
   float_of (PyInt 9007199254740993) = Inr (Finite 9007199254740992) \<and>
   num_ge (PyInt 9007199254740993) 1000 \<and>
   format_price (PyInt 9007199254740993) = Inr ''$9,007,199,254,740,992.00''"
  using format_price_tiers [of "PyFloat (Finite 2500)" 2500]
    format_price_tiers [of "PyFloat (Finite (5 / 2))" "5 / 2"]
    format_price_tiers [of "PyFloat (Finite (1 / 4))" "1 / 4"]
    format_price_tiers [OF float_of_2_53_1(1)]
  by (simp add: float_of_2_53_1 num_ge_def num_lt_def eval_format)

text \<open>
  Claim C10, as stated, fails for the negative infinity, which is shown as
  \<^verbatim>\<open>$-inf\<close> without decimal places, and for a negative integer beyond the floats,
  for which the format raises \<^verbatim>\<open>OverflowError\<close>.
\<close>

theorem format_price_negative_counterexample:
  "num_lt (PyFloat NegInf) 0 \<and> format_price (PyFloat NegInf) = Inr ''$-inf'' \<and>
   num_lt (PyInt (- (10 ^ 309))) 0 \<and>
   format_price (PyInt (- (10 ^ 309))) = Inl OverflowError"
proof -
  have "float_of (PyInt (- (10 ^ 309))) = Inl OverflowError"
    by (rule float_of_large_int) simp
  then have "format_price (PyInt (- (10 ^ 309))) = Inl OverflowError"
    by (rule format_price_overflow)
  then show ?thesis
    by (simp add: format_price_def format_num_def format_float_def and_then_def
        num_ge_def num_lt_def)
qed

text \<open>
  Claim C10, amended. The comparisons of \<^verbatim>\<open>format_price\<close> are on the signed value,
  so every negative finite value (a finite float, or an integer within the range of the
  floats, shown as the float \<open>x\<close> nearest to it) falls into the last tier: the result is
  the currency symbol, the minus sign, the integer part without separators, and eight
  decimal places. The value -1500 is shown as \<^verbatim>\<open>$-1500.00000000\<close>, not in the tier of
  the thousands.
\<close>

theorem format_price_negative:
  assumes "num_lt price 0" and "float_of price = Inr (Finite x)"
  shows "format_price price =
           Inr (''$-'' @ digits (scaled 8 x div 100000000) @ ''.'' @
                [digit_char (scaled 8 x div 10000000), digit_char (scaled 8 x div 1000000),
                 digit_char (scaled 8 x div 100000), digit_char (scaled 8 x div 10000),
                 digit_char (scaled 8 x div 1000), digit_char (scaled 8 x div 100),
                 digit_char (scaled 8 x div 10), digit_char (scaled 8 x)]) \<and>
         CHR '','' \<notin> set (''$-'' @ digits (scaled 8 x div 100000000) @ ''.'' @
                [digit_char (scaled 8 x div 10000000), digit_char (scaled 8 x div 1000000),
                 digit_char (scaled 8 x div 100000), digit_char (scaled 8 x div 10000),
                 digit_char (scaled 8 x div 1000), digit_char (scaled 8 x div 100),
                 digit_char (scaled 8 x div 10), digit_char (scaled 8 x)])"
proof
  from assms(1) shown_compare(2) [OF assms(2)] have neg: "x < 0" by blast
  have "num_lt price 1"
    using assms(1) by (auto simp: num_lt_def split: pynum.splits pyfloat.splits)
  from format_price_tier_3 [OF assms(2) this] neg
  show "format_price price =
           Inr (''$-'' @ digits (scaled 8 x div 100000000) @ ''.'' @
                [digit_char (scaled 8 x div 10000000), digit_char (scaled 8 x div 1000000),
                 digit_char (scaled 8 x div 100000), digit_char (scaled 8 x div 10000),
                 digit_char (scaled 8 x div 1000), digit_char (scaled 8 x div 100),
                 digit_char (scaled 8 x div 10), digit_char (scaled 8 x)])"
    by simp
  show "CHR '','' \<notin> set (''$-'' @ digits (scaled 8 x div 100000000) @ ''.'' @
                [digit_char (scaled 8 x div 10000000), digit_char (scaled 8 x div 1000000),
                 digit_char (scaled 8 x div 100000), digit_char (scaled 8 x div 10000),
                 digit_char (scaled 8 x div 1000), digit_char (scaled 8 x div 100),
                 digit_char (scaled 8 x div 10), digit_char (scaled 8 x)])"
    using no_comma_tier_3 [of True] by simp
qed

text \<open>The value -1500, and the integer \<open>-(2\<^sup>5\<^sup>3 + 1)\<close>.\<close>

theorem format_price_negative_witness:
  "num_lt (PyInt (- 1500)) 0 \<and> float_of (PyInt (- 1500)) = Inr (Finite (- 1500)) \<and>
   format_price (PyInt (- 1500)) = Inr ''$-1500.00000000'' \<and>
   num_lt (PyInt (- 9007199254740993)) 0 \<and>
   float_of (PyInt (- 9007199254740993)) = Inr (Finite (- 9007199254740992)) \<and>
   format_price (PyInt (- 9007199254740993)) = Inr ''$-9007199254740992.00000000''"
proof -
  have f: "float_of (PyInt (- 1500)) = Inr (Finite (- 1500))"
    using float_of_small_int [of "- 1500"] by simp
  have n: "num_lt (PyInt (- 1500)) 0" "num_lt (PyInt (- 9007199254740993)) 0"
    by (simp_all add: num_lt_def)
  from format_price_negative [OF n(1) f] format_price_negative [OF n(2) float_of_2_53_1(2)]
  show ?thesis
    by (simp add: f n float_of_2_53_1 eval_format)
qed

subsection \<open>The change formatter\<close>

lemma no_esc_digit_char: "digit_char d \<noteq> CHR 0x1B"
  using digit_char_digit [of d] by auto

lemma no_esc_digits: "CHR 0x1B \<notin> set (digits n)"
  using digits_chars [of n] by auto

lemma strip_esc_plain: "CHR 0x1B \<notin> set s \<Longrightarrow> strip_esc False (s @ t) = s @ strip_esc False t"
  by (induction s) auto

lemma strip_esc_green: "strip_esc False (green @ t) = strip_esc False t"
  by (simp add: green_def)

lemma strip_esc_red: "strip_esc False (red @ t) = strip_esc False t"
  by (simp add: red_def)

lemma strip_esc_reset: "strip_esc False reset = []"
  by (simp add: reset_def)

lemma format_f_2:
  "format_f False 2 x =
     (if x < 0 then ''-'' else []) @ digits (scaled 2 x div 100) @ ''.'' @
     [digit_char (scaled 2 x div 10), digit_char (scaled 2 x)]"
  by (simp add: format_f_shape last_digits_2 del: last_digits_numeral)

lemma no_esc_format_f_2: "CHR 0x1B \<notin> set (format_f False 2 x @ ''%'')"
  by (simp add: format_f_2 no_esc_digits no_esc_digit_char no_esc_digit_char [symmetric])

lemma format_f_2_zero: "format_f False 2 0 = ''0.00''"
  by (simp add: format_f_def scaled_def round_half_even_def digit_char_def)

text \<open>The three branches of \<^verbatim>\<open>format_change\<close>, for a number that is shown as \<open>x\<close>.\<close>

lemma format_change_positive:
  assumes "float_of change = Inr (Finite x)" and "num_gt change 0"
  shows "format_change change = Inr (green @ ''+'' @ format_f False 2 x @ ''%'' @ reset)"
proof -
  have "format_change change =
      and_then (format_num False 2 change) (\<lambda>s. Inr (green @ ''+'' @ s @ ''%'' @ reset))"
    unfolding format_change_def using assms(2) by (rule if_P)
  then show ?thesis
    by (simp only: format_num_shown [OF assms(1)] and_then_def sum.case)
qed

lemma format_change_negative:
  assumes "float_of change = Inr (Finite x)" and "num_lt change 0"
  shows "format_change change = Inr (red @ format_f False 2 x @ ''%'' @ reset)"
proof -
  from assms(2) shown_compare(2) [OF assms(1)] have "x < 0" by blast
  then have "\<not> 0 < x" by simp
  with shown_compare(1) [OF assms(1)] have n: "\<not> num_gt change 0" by blast
  have "format_change change =
      (if num_lt change 0 then
        and_then (format_num False 2 change) (\<lambda>s. Inr (red @ s @ ''%'' @ reset))
      else and_then (format_num False 2 change) (\<lambda>s. Inr (s @ ''%'')))"
    unfolding format_change_def using n by (rule if_not_P)
  also have "\<dots> = and_then (format_num False 2 change) (\<lambda>s. Inr (red @ s @ ''%'' @ reset))"
    using assms(2) by (rule if_P)
  finally show ?thesis
    by (simp only: format_num_shown [OF assms(1)] and_then_def sum.case)
qed

lemma format_change_zero:
  assumes "float_of change = Inr (Finite x)" and "\<not> num_gt change 0" and "\<not> num_lt change 0"
  shows "format_change change = Inr (format_f False 2 x @ ''%'')"
proof -
  have "format_change change =
      (if num_lt change 0 then
        and_then (format_num False 2 change) (\<lambda>s. Inr (red @ s @ ''%'' @ reset))
      else and_then (format_num False 2 change) (\<lambda>s. Inr (s @ ''%'')))"
    unfolding format_change_def using assms(2) by (rule if_not_P)
  also have "\<dots> = and_then (format_num False 2 change) (\<lambda>s. Inr (s @ ''%''))"
    using assms(3) by (rule if_not_P)
  finally show ?thesis
    by (simp only: format_num_shown [OF assms(1)] and_then_def sum.case)
qed

text \<open>
  Claim C8, as stated, fails for the numbers that are not shown as a finite float:
  not-a-number gives \<^verbatim>\<open>nan%\<close>, the positive infinity gives \<^verbatim>\<open>+inf%\<close> in green,
  neither with two decimal places, and for an integer beyond the floats the format
  raises \<^verbatim>\<open>OverflowError\<close>.
\<close>

theorem format_change_styled_counterexample:
  "format_change (PyFloat NaN) = Inr ''nan%'' \<and>
   format_change (PyFloat PosInf) = Inr (green @ ''+inf%'' @ reset) \<and>
   format_change (PyInt (10 ^ 309)) = Inl OverflowError"
proof -
  have "float_of (PyInt (10 ^ 309)) = Inl OverflowError"
    by (rule float_of_large_int) simp
  then have "format_change (PyInt (10 ^ 309)) = Inl OverflowError"
    by (rule format_change_overflow)
  then show ?thesis
    by (simp add: format_change_def format_num_def format_float_def and_then_def
        num_gt_def num_lt_def)
qed

text \<open>
  Claim C8, amended. For every finite percentage value (a finite float, or an integer
  within the range of the floats, shown as the float \<open>x\<close> nearest to it),
  \<^verbatim>\<open>format_change\<close> shows the value with two decimal places and the per cent sign.
  A positive value has a plus sign and is wrapped in the escape sequences for green; a
  negative value has its minus sign and is wrapped in those for red; a zero has no
  escape sequence, and the zeros 0 and 0.0 have no sign. A reader that drops the escape
  sequences (\<open>unstyled\<close>) is left with the sign, the number and the per cent sign in
  every case. \<^verbatim>\<open>format_change(-3.2)\<close> contains \<^verbatim>\<open>-3.20%\<close>, \<^verbatim>\<open>format_change(0)\<close>
  is \<^verbatim>\<open>0.00%\<close>, and the negative zero is shown, without escape sequence, as
  \<^verbatim>\<open>-0.00%\<close>.
\<close>

theorem format_change_styled:
  assumes "float_of change = Inr (Finite x)"
  shows
   "(num_gt change 0 \<longrightarrow>
       format_change change =
         Inr (green @ ''+'' @ digits (scaled 2 x div 100) @ ''.'' @
              [digit_char (scaled 2 x div 10), digit_char (scaled 2 x)] @ ''%'' @ reset)) \<and>
    (num_lt change 0 \<longrightarrow>
       format_change change =
         Inr (red @ ''-'' @ digits (scaled 2 x div 100) @ ''.'' @
              [digit_char (scaled 2 x div 10), digit_char (scaled 2 x)] @ ''%'' @ reset)) \<and>
    (\<not> num_gt change 0 \<and> \<not> num_lt change 0 \<longrightarrow> format_change change = Inr ''0.00%'') \<and>
    (format_change change = Inr s \<longrightarrow>
       unstyled s =
         (if num_gt change 0 then ''+'' else if num_lt change 0 then ''-'' else []) @
         digits (scaled 2 x div 100) @ ''.'' @
         [digit_char (scaled 2 x div 10), digit_char (scaled 2 x)] @ ''%'') \<and>
    format_change (PyFloat (Finite (- (16 / 5)))) = Inr (red @ ''-3.20%'' @ reset) \<and>
    format_change (PyInt 0) = Inr ''0.00%'' \<and>
    format_change (PyFloat NegZero) = Inr ''-0.00%''"
proof (intro conjI impI)
  note gt = shown_compare(1) [OF assms] and lt = shown_compare(2) [OF assms]
  have plain: "strip_esc False ((format_f False 2 x @ ''%'') @ t) =
      (format_f False 2 x @ ''%'') @ strip_esc False t" for t
    using no_esc_format_f_2 by (rule strip_esc_plain)
  have plus: "strip_esc False (''+'' @ t) = ''+'' @ strip_esc False t" for t
    by simp
  {
    assume h: "num_gt change 0"
    then have "\<not> x < 0" using gt by simp
    with format_change_positive [OF assms h]
    show "format_change change =
         Inr (green @ ''+'' @ digits (scaled 2 x div 100) @ ''.'' @
              [digit_char (scaled 2 x div 10), digit_char (scaled 2 x)] @ ''%'' @ reset)"
      by (simp add: format_f_2)
  }
  {
    assume h: "num_lt change 0"
    then have "x < 0" using lt by simp
    with format_change_negative [OF assms h]
    show "format_change change =
         Inr (red @ ''-'' @ digits (scaled 2 x div 100) @ ''.'' @
              [digit_char (scaled 2 x div 10), digit_char (scaled 2 x)] @ ''%'' @ reset)"
      by (simp add: format_f_2)
  }
  {
    assume h: "\<not> num_gt change 0 \<and> \<not> num_lt change 0"
    then have "x = 0" using gt lt by simp
    with format_change_zero [OF assms] h
    show "format_change change = Inr ''0.00%''"
      by (simp add: format_f_2_zero)
  }
  {
    assume r: "format_change change = Inr s"
    consider "num_gt change 0" | "num_lt change 0" | "\<not> num_gt change 0" "\<not> num_lt change 0"
      by blast
    then show "unstyled s =
         (if num_gt change 0 then ''+'' else if num_lt change 0 then ''-'' else []) @
         digits (scaled 2 x div 100) @ ''.'' @
         [digit_char (scaled 2 x div 10), digit_char (scaled 2 x)] @ ''%''"
    proof cases
      case 1
      then have nn: "\<not> x < 0" using gt by simp
      from format_change_positive [OF assms 1] r
      have "s = green @ ''+'' @ (format_f False 2 x @ ''%'') @ reset" by simp
      then have "unstyled s = strip_esc False (''+'' @ (format_f False 2 x @ ''%'') @ reset)"
        by (simp only: unstyled_def strip_esc_green)
      also have "\<dots> = ''+'' @ (format_f False 2 x @ ''%'')"
        by (simp only: plus plain strip_esc_reset append_Nil2)
      finally show ?thesis using 1 nn by (simp add: format_f_2)
    next
      case 2
      then have neg: "x < 0" using lt by simp
      then have ng: "\<not> num_gt change 0" using gt by simp
      from format_change_negative [OF assms 2] r
      have "s = red @ (format_f False 2 x @ ''%'') @ reset" by simp
      then have "unstyled s = strip_esc False ((format_f False 2 x @ ''%'') @ reset)"
        by (simp only: unstyled_def strip_esc_red)
      also have "\<dots> = format_f False 2 x @ ''%''"
        by (simp only: plain strip_esc_reset append_Nil2)
      finally show ?thesis using 2 ng neg by (simp add: format_f_2)
    next
      case 3
      then have z: "\<not> x < 0" using lt by simp
      from format_change_zero [OF assms 3] r
      have "s = format_f False 2 x @ ''%''" by simp
      then have "unstyled s = strip_esc False (format_f False 2 x @ ''%'')"
        by (simp only: unstyled_def)
      also have "\<dots> = format_f False 2 x @ ''%''"
        using plain [of "[]"] by simp
      finally show ?thesis using 3 z by (simp add: format_f_2)
    qed
  }
  show "format_change (PyFloat (Finite (- (16 / 5)))) = Inr (red @ ''-3.20%'' @ reset)"
    by (simp add: format_change_def format_num_def format_float_def and_then_def
        num_gt_def num_lt_def eval_format)
  have "float_of (PyInt 0) = Inr (Finite 0)"
    using float_of_small_int [of 0] by simp
  then show "format_change (PyInt 0) = Inr ''0.00%''"
    by (simp add: format_change_def format_num_def format_float_def and_then_def
        num_gt_def num_lt_def eval_format)
  show "format_change (PyFloat NegZero) = Inr ''-0.00%''"
    by (simp add: format_change_def format_num_def format_float_def and_then_def
        num_gt_def num_lt_def eval_format)
qed

text \<open>
  A gain of 1.25 per cent, the float nearest to -3.2, which is
  \<open>- 3602879701896397 / 2\<^sup>5\<^sup>0\<close>, the integer \<open>2\<^sup>5\<^sup>3 + 1\<close>, and the float 0.0.
\<close>

theorem format_change_styled_witness:
  "float_of (PyFloat (Finite (5 / 4))) = Inr (Finite (5 / 4)) \<and>
   num_gt (PyFloat (Finite (5 / 4))) 0 \<and>
   format_change (PyFloat (Finite (5 / 4))) = Inr (green @ ''+1.25%'' @ reset) \<and>
   num_lt (PyFloat (Finite (- 3602879701896397 / 1125899906842624))) 0 \<and>
   format_change (PyFloat (Finite (- 3602879701896397 / 1125899906842624))) =
     Inr (red @ ''-3.20%'' @ reset) \<and>
   unstyled (red @ ''-3.20%'' @ reset) = ''-3.20%'' \<and>
   float_of (PyInt 9007199254740993) = Inr (Finite 9007199254740992) \<and>
   format_change (PyInt 9007199254740993) =
     Inr (green @ ''+9007199254740992.00%'' @ reset) \<and>
   format_change (PyFloat (Finite 0)) = Inr ''0.00%''"
proof -
  note a = format_change_styled [of "PyFloat (Finite (5 / 4))" "5 / 4"]
  note b = format_change_styled
    [of "PyFloat (Finite (- 3602879701896397 / 1125899906842624))"
        "- 3602879701896397 / 1125899906842624" "red @ ''-3.20%'' @ reset"]
  note c = format_change_styled [OF float_of_2_53_1(1)]
  note d = format_change_styled [of "PyFloat (Finite 0)" 0]
  have 1: "format_change (PyFloat (Finite (5 / 4))) = Inr (green @ ''+1.25%'' @ reset)"
    using a by (simp add: num_gt_def eval_format)
  have 2: "format_change (PyFloat (Finite (- 3602879701896397 / 1125899906842624))) =
     Inr (red @ ''-3.20%'' @ reset)"
    using b by (simp add: num_lt_def eval_format)
  have 3: "unstyled (red @ ''-3.20%'' @ reset) = ''-3.20%''"
    using b 2 by (simp add: num_gt_def num_lt_def eval_format)
  have 4: "format_change (PyInt 9007199254740993) =
     Inr (green @ ''+9007199254740992.00%'' @ reset)"
    using c by (simp add: num_gt_def eval_format)
  have 5: "format_change (PyFloat (Finite 0)) = Inr ''0.00%''"
    using d by (simp add: num_gt_def num_lt_def)
  from 1 2 3 4 5 show ?thesis
    by (simp add: float_of_2_53_1 num_gt_def num_lt_def)
qed

subsection \<open>Search\<close>

text \<open>
  Claim C6. When the search request succeeds and the body has a list of matches under
  \<^verbatim>\<open>coins\<close>, \<^verbatim>\<open>search_crypto\<close> returns the first ten of them in their order: the
  matches are the result followed by the matches left out, the result has ten elements
  when there are more than ten matches, and it is the whole list when there are ten or
  fewer. An empty list of matches gives the empty list, neither \<^verbatim>\<open>None\<close> nor an
  exception.
\<close>

theorem search_crypto_first_ten:
  assumes "http (search_request query) = Body payload"
      and "map_of payload ''coins'' = Some (JArr coins)"
  shows "search_crypto http query = ([], Inr (Some (JArr (take 10 coins)))) \<and>
         coins = take 10 coins @ drop 10 coins \<and>
         (10 < length coins \<longrightarrow> length (take 10 coins) = 10) \<and>
         (length coins \<le> 10 \<longrightarrow> take 10 coins = coins) \<and>
         (coins = [] \<longrightarrow> search_crypto http query = ([], Inr (Some (JArr []))))"
  using assms by (simp add: search_crypto_def get_default_def slice10_def and_then_def)

text \<open>Fifteen matches.\<close>

theorem search_crypto_first_ten_witness:
  "search_crypto
     (\<lambda>r. Body [(''coins'', JArr (map JStr [''a'', ''b'', ''c'', ''d'', ''e'', ''f'', ''g'', ''h'',
                                            ''i'', ''j'', ''k'', ''l'', ''m'', ''n'', ''o'']))])
     ''coin'' =
   ([], Inr (Some (JArr (map JStr [''a'', ''b'', ''c'', ''d'', ''e'', ''f'', ''g'', ''h'',
                                   ''i'', ''j'']))))"
  using search_crypto_first_ten
    [of "\<lambda>r. Body [(''coins'', JArr (map JStr [''a'', ''b'', ''c'', ''d'', ''e'', ''f'', ''g'',
                                                ''h'', ''i'', ''j'', ''k'', ''l'', ''m'', ''n'',
                                                ''o'']))]"
        "''coin''"
        "[(''coins'', JArr (map JStr [''a'', ''b'', ''c'', ''d'', ''e'', ''f'', ''g'', ''h'',
                                      ''i'', ''j'', ''k'', ''l'', ''m'', ''n'', ''o'']))]"
        "map JStr [''a'', ''b'', ''c'', ''d'', ''e'', ''f'', ''g'', ''h'', ''i'', ''j'', ''k'',
                   ''l'', ''m'', ''n'', ''o'']"]
  by simp

text \<open>A body without the key gives the empty list too.\<close>

lemma search_crypto_no_coins:
  "http (search_request query) = Body payload \<Longrightarrow> map_of payload ''coins'' = None \<Longrightarrow>
   search_crypto http query = ([], Inr (Some (JArr [])))"
  by (simp add: search_crypto_def get_default_def slice10_def and_then_def)

subsection \<open>The table\<close>

lemma table_rows_ok:
  "map table_row cryptos = map Inr rows \<Longrightarrow> table_rows cryptos = (map line rows, None)"
proof (induction cryptos arbitrary: rows)
  case Nil
  then show ?case by simp
next
  case (Cons c cs)
  then obtain r rs where rows: "rows = r # rs" by (cases rows) auto
  with Cons.prems have "table_row c = Inr r" "map table_row cs = map Inr rs" by simp_all
  with Cons.IH [of rs] rows show ?case by simp
qed

text \<open>
  Claim C7, as stated, fails for the empty sequence: \<^verbatim>\<open>display_top_list\<close> prints
  its header and its rule before it looks at the entries.
\<close>

theorem display_top_list_counterexample:
  "display_top_list [] = ([line table_header, line table_rule], None) \<and>
   fst (display_top_list []) \<noteq> []"
  by (simp add: display_top_list_def)

text \<open>
  Claim C7, amended. \<^verbatim>\<open>display_top_list\<close> prints a header (an empty line and the
  column titles, then a rule of 75 dashes) followed by exactly one formatted row for each
  entry, in the order of the sequence, when every entry can be formatted. For the empty
  sequence it prints the header alone. Nothing at all is printed for an empty sequence
  only where the callers are concerned: they call \<^verbatim>\<open>display_top_list\<close> for a
  sequence that is not empty (\<open>show_top\<close>).
\<close>

theorem display_top_list_rows:
  "(map table_row cryptos = map Inr rows \<longrightarrow>
      display_top_list cryptos = (line table_header # line table_rule # map line rows, None) \<and>
      length rows = length cryptos) \<and>
   display_top_list [] = ([line table_header, line table_rule], None) \<and>
   (http (markets_request limit) = Body [] \<longrightarrow> show_top http limit = ([], None))"
proof (intro conjI impI)
  assume h: "map table_row cryptos = map Inr rows"
  then show "display_top_list cryptos =
      (line table_header # line table_rule # map line rows, None)"
    by (simp add: display_top_list_def table_rows_ok)
  from h show "length rows = length cryptos" by (metis length_map)
next
  show "display_top_list [] = ([line table_header, line table_rule], None)"
    by (simp add: display_top_list_def)
next
  assume "http (markets_request limit) = Body []"
  then show "show_top http limit = ([], None)"
    by (simp add: show_top_def get_top_cryptos_def)
qed

text \<open>Three entries, the second without a change, the third with a long name.\<close>

theorem display_top_list_rows_witness:
  "display_top_list
     [[(''symbol'', JStr ''btc''), (''name'', JStr ''Bitcoin''),
       (''current_price'', JFloat (Finite 65000.5)), (''price_change_percentage_24h'', JFloat (Finite (- 1.234))),
       (''market_cap'', JInt 1280000000000)],
      [(''symbol'', JStr ''eth''), (''name'', JStr ''Ethereum''),
       (''current_price'', JFloat (Finite 3.25)), (''market_cap'', JInt 4200)],
      [(''symbol'', JStr ''shib''), (''name'', JStr ''A Very Long Coin Name Here''),
       (''current_price'', JFloat (Finite (1 / 80000))), (''price_change_percentage_24h'', JInt 0)]] =
   (line table_header # line table_rule #
    map line
      [''BTC      Bitcoin              $65,000.50      '' @ red @ ''-1.23%'' @ reset @
       '' $1,280,000,000,000'',
       ''ETH      Ethereum             $3.2500         0.00%        $4,200         '',
       ''SHIB     A Very Long Coin N.. $0.00001250     0.00%        $0             ''],
    None) \<and>
   show_top (\<lambda>r. Body []) 3 = ([], None)"
proof -
  have rows:
    "map table_row
       [[(''symbol'', JStr ''btc''), (''name'', JStr ''Bitcoin''),
         (''current_price'', JFloat (Finite 65000.5)), (''price_change_percentage_24h'', JFloat (Finite (- 1.234))),
         (''market_cap'', JInt 1280000000000)],
        [(''symbol'', JStr ''eth''), (''name'', JStr ''Ethereum''),
         (''current_price'', JFloat (Finite 3.25)), (''market_cap'', JInt 4200)],
        [(''symbol'', JStr ''shib''), (''name'', JStr ''A Very Long Coin Name Here''),
         (''current_price'', JFloat (Finite (1 / 80000))), (''price_change_percentage_24h'', JInt 0)]] =
     map Inr
       [''BTC      Bitcoin              $65,000.50      '' @ red @ ''-1.23%'' @ reset @
        '' $1,280,000,000,000'',
        ''ETH      Ethereum             $3.2500         0.00%        $4,200         '',
        ''SHIB     A Very Long Coin N.. $0.00001250     0.00%        $0             '']"
    by (simp add: table_row_def eval_text float_of_int_exact)
  have top: "(\<lambda>r. Body []) (markets_request 3) = Body ([] :: dict list)" by simp
  from display_top_list_rows [of _ _ "\<lambda>r. Body []" 3] rows top show ?thesis by blast
qed

subsection \<open>A missing asset\<close>

text \<open>
  Claim C4. When the request for a price succeeds and the body has no item for the asset
  asked for, \<^verbatim>\<open>get_crypto_price\<close> returns the body and prints nothing, and
  \<^verbatim>\<open>main\<close> reports that the asset was not found. A request that fails is a
  different outcome for the caller: \<^verbatim>\<open>get_crypto_price\<close> prints its error message and
  returns \<^verbatim>\<open>None\<close>, so both what is returned and what is printed differ.
\<close>

theorem missing_asset_not_found:
  assumes "http (price_request crypto_id) = Body payload"
      and "map_of payload crypto_id = None"
  shows "get_crypto_price http crypto_id = ([], Inr (Some payload)) \<and>
         main_price http crypto_id = ([line ''Cryptocurrency not found.''], None) \<and>
         (down (price_request crypto_id) = Failed e \<longrightarrow>
            get_crypto_price down crypto_id = ([line (''Error fetching data: '' @ e)], Inr None) \<and>
            snd (get_crypto_price down crypto_id) \<noteq> snd (get_crypto_price http crypto_id) \<and>
            main_price down crypto_id \<noteq> main_price http crypto_id)"
  using assms by (simp add: get_crypto_price_def main_price_def)

text \<open>A misspelt asset, against a body with another asset and against an empty body.\<close>

theorem missing_asset_not_found_witness:
  "get_crypto_price (\<lambda>r. Body [(''bitcoin'', JObj [(''usd'', JInt 65000)])]) ''bitcoim'' =
     ([], Inr (Some [(''bitcoin'', JObj [(''usd'', JInt 65000)])])) \<and>
   main_price (\<lambda>r. Body [(''bitcoin'', JObj [(''usd'', JInt 65000)])]) ''bitcoim'' =
     ([line ''Cryptocurrency not found.''], None) \<and>
   main_price (\<lambda>r. Body []) ''bitcoim'' = ([line ''Cryptocurrency not found.''], None) \<and>
   get_crypto_price (\<lambda>r. Failed ''timed out'') ''bitcoim'' =
     ([line ''Error fetching data: timed out''], Inr None)"
  using missing_asset_not_found
    [of "\<lambda>r. Body [(''bitcoin'', JObj [(''usd'', JInt 65000)])]" "''bitcoim''"
        "[(''bitcoin'', JObj [(''usd'', JInt 65000)])]" "\<lambda>r. Failed ''timed out''"
        "''timed out''"]
    missing_asset_not_found [of "\<lambda>r. Body []" "''bitcoim''" "[]"]
  by simp

subsection \<open>The command \<^verbatim>\<open>watch\<close> of the prompt\<close>

text \<open>
  Claim C9, as stated, fails when an interval is typed: the interval is taken as part of
  the asset id, and the loop starts with the default interval.
\<close>

theorem dispatch_watch_counterexample:
  "dispatch ''watch bitcoin 5'' = Watch ''bitcoin 5'' 30 \<and>
   dispatch ''watch bitcoin 5'' \<noteq> Watch ''bitcoin'' 5"
  by (simp add: dispatch_def lower_def lower_char_def strip_def is_space_def startswith_def
      default_interval_def)

text \<open>
  Claim C9, amended. For every line typed at the prompt that, stripped and in lower
  case, is \<^verbatim>\<open>watch\<close>, a space and a rest, the dispatcher starts the refresh loop
  with the whole rest as the asset id and with the default interval of 30 seconds; no
  interval is read from the line. (The list of commands that the prompt prints has
  \<^verbatim>\<open>watch [crypto]\<close>, without an interval.)
\<close>

theorem dispatch_watch:
  assumes "lower (strip typed) = ''watch '' @ crypto_id"
  shows "dispatch typed = Watch crypto_id 30"
  using assms by (simp add: dispatch_def startswith_def default_interval_def)

text \<open>A line with capitals, spaces around it and a number at its end.\<close>

theorem dispatch_watch_witness:
  "lower (strip ''  Watch Bitcoin 5 '') = ''watch '' @ ''bitcoin 5'' \<and>
   dispatch ''  Watch Bitcoin 5 '' = Watch ''bitcoin 5'' 30"
proof -
  have "lower (strip ''  Watch Bitcoin 5 '') = ''watch '' @ ''bitcoin 5''"
    by (simp add: lower_def lower_char_def strip_def is_space_def)
  with dispatch_watch [of "''  Watch Bitcoin 5 ''" "''bitcoin 5''"] show ?thesis by blast
qed

subsection \<open>The exceptions of a cycle\<close>

lemma and_then_Inl:
  "and_then r f = Inl e \<Longrightarrow> r = Inl e \<or> (\<exists>v. r = Inr v \<and> f v = Inl e)"
  by (cases r) (simp_all add: and_then_def)

lemma subscript_Inl: "subscript d k = Inl e \<Longrightarrow> e = KeyError"
  by (simp add: subscript_def split: option.splits)

lemma subscript_json_Inl: "subscript_json v k = Inl e \<Longrightarrow> e = KeyError \<or> e = TypeError"
  by (cases v) (auto simp: subscript_json_def dest: subscript_Inl)

lemma get_json_Inl: "get_json v k dflt = Inl e \<Longrightarrow> e = AttributeError"
  by (cases v) (simp_all add: get_json_def)

lemma number_Inl: "number v = Inl e \<Longrightarrow> e = TypeError"
  by (cases v) (simp_all add: number_def)

lemma float_of_Inl: "float_of n = Inl e \<Longrightarrow> e = OverflowError"
  by (cases n) (simp_all add: float_of_def float_of_int_def split: if_splits)

lemma format_num_Inl: "format_num sep p n = Inl e \<Longrightarrow> e = OverflowError"
  by (auto simp: format_num_def dest!: and_then_Inl float_of_Inl)

lemma format_price_Inl: "format_price n = Inl e \<Longrightarrow> e = OverflowError"
  by (auto simp: format_price_def dest!: and_then_Inl format_num_Inl split: if_splits)

lemma format_change_Inl: "format_change n = Inl e \<Longrightarrow> e = OverflowError"
  by (auto simp: format_change_def dest!: and_then_Inl format_num_Inl split: if_splits)

lemma format_price_json_Inl:
  "format_price_json v = Inl e \<Longrightarrow> e = TypeError \<or> e = OverflowError"
  by (auto simp: format_price_json_def dest!: and_then_Inl number_Inl format_price_Inl)

lemma format_change_json_Inl:
  "format_change_json v = Inl e \<Longrightarrow> e = TypeError \<or> e = OverflowError"
  by (auto simp: format_change_json_def dest!: and_then_Inl number_Inl format_change_Inl)

lemma watch_line_Inl:
  assumes "watch_line crypto_id t d = Inl e"
  shows "e = KeyError \<or> e = TypeError \<or> e = AttributeError \<or> e = OverflowError"
proof -
  from assms show ?thesis
    unfolding watch_line_def
    by (auto dest!: and_then_Inl subscript_Inl subscript_json_Inl get_json_Inl
        format_price_json_Inl format_change_json_Inl)
qed

text \<open>Rendering raises no interrupt, and every text that it writes starts with a carriage return.\<close>

lemma watch_render_Inl: "watch_render crypto_id t price_data = Inl e \<Longrightarrow> e \<noteq> KeyboardInterrupt"
  by (auto simp: watch_render_def split: option.splits if_splits
      dest!: and_then_Inl watch_line_Inl)

lemma watch_line_hd:
  "watch_line crypto_id t d = Inr l \<Longrightarrow> hd l = CHR 0x0D"
  by (auto simp: watch_line_def and_then_def split: sum.splits)

lemma watch_render_hd:
  "watch_render crypto_id t price_data = Inr ls \<Longrightarrow> x \<in> set ls \<Longrightarrow> hd x = CHR 0x0D"
  by (auto simp: watch_render_def and_then_def split: option.splits if_splits sum.splits
      dest: watch_line_hd)

lemma watch_render_no_quote:
  "map_of d crypto_id = None \<Longrightarrow> watch_render crypto_id t (Some d) = Inr []"
  by (simp add: watch_render_def)

subsection \<open>One cycle of the watch loop\<close>

text \<open>The sleeps that a call of \<^verbatim>\<open>time.sleep\<close> completes.\<close>

lemma time_sleep_None:
  "time_sleep max_sleep secs interrupted = None \<longleftrightarrow>
   0 \<le> secs \<and> secs \<le> max_sleep \<and> \<not> interrupted"
  by (auto simp: time_sleep_def)

lemma time_sleep_interrupt:
  "time_sleep max_sleep secs interrupted = Some KeyboardInterrupt \<longleftrightarrow>
   0 \<le> secs \<and> secs \<le> max_sleep \<and> interrupted"
  by (auto simp: time_sleep_def)

lemma time_sleep_in_range:
  "0 \<le> secs \<Longrightarrow> secs \<le> max_sleep \<Longrightarrow>
   time_sleep max_sleep secs interrupted = (if interrupted then Some KeyboardInterrupt else None)"
  by (simp add: time_sleep_def)

text \<open>A cycle, by the reply to its request.\<close>

lemma watch_cycle_eq:
  "watch_cycle max_sleep crypto_id interval c =
     (case server c (price_request crypto_id) of
        Interrupted \<Rightarrow> ([], [], Some KeyboardInterrupt)
      | Failed msg \<Rightarrow>
          ([line (''Error fetching data: '' @ msg)],
           if time_sleep max_sleep interval (interrupt c) = None then [interval] else [],
           time_sleep max_sleep interval (interrupt c))
      | Body payload \<Rightarrow>
          (case watch_render crypto_id (clock c) (Some payload) of
             Inl e \<Rightarrow> ([], [], Some e)
           | Inr rendered \<Rightarrow>
               (rendered,
                if time_sleep max_sleep interval (interrupt c) = None then [interval] else [],
                time_sleep max_sleep interval (interrupt c))))"
  by (auto simp: watch_cycle_def get_crypto_price_def watch_render_def
      split: reply.splits sum.splits option.splits)

lemma watch_cycle_fetch_interrupted:
  "server c (price_request crypto_id) = Interrupted \<Longrightarrow>
   watch_cycle max_sleep crypto_id interval c = ([], [], Some KeyboardInterrupt)"
  by (simp add: watch_cycle_eq)

lemma watch_cycle_no_quote:
  "no_quote crypto_id c \<Longrightarrow>
   watch_cycle max_sleep crypto_id interval c =
     (fetch_errors crypto_id [c],
      if time_sleep max_sleep interval (interrupt c) = None then [interval] else [],
      time_sleep max_sleep interval (interrupt c))"
  by (auto simp: no_quote_def watch_cycle_eq fetch_errors_def watch_render_no_quote
      split: reply.splits)

lemma watch_cycle_raises:
  assumes "watch_cycle max_sleep crypto_id interval c = (out, slept, Some e)"
  shows "slept = []"
    and "e = KeyboardInterrupt \<Longrightarrow> cancelled crypto_id c"
    and "0 \<le> interval \<Longrightarrow> interval \<le> max_sleep \<Longrightarrow>
         e = KeyboardInterrupt \<or> render_raises crypto_id e c"
  using assms
  by (auto simp: watch_cycle_eq cancelled_def render_raises_def time_sleep_interrupt
      time_sleep_in_range
      split: reply.splits sum.splits if_splits dest: watch_render_Inl)

lemma watch_cycle_returns:
  assumes "watch_cycle max_sleep crypto_id interval c = (out, slept, None)"
  shows "slept = [interval] \<and> 0 \<le> interval \<and> interval \<le> max_sleep \<and>
         \<not> cancelled crypto_id c"
  using assms
  by (auto simp: watch_cycle_eq cancelled_def time_sleep_None
      split: reply.splits sum.splits if_splits)

lemma watch_cycle_sleep_interrupted:
  assumes "watch_cycle max_sleep crypto_id interval (c\<lparr>interrupt := False\<rparr>) =
           (out, slept, None)"
      and "interrupt c"
  shows "watch_cycle max_sleep crypto_id interval c = (out, [], Some KeyboardInterrupt)"
  using assms
  by (auto simp: watch_cycle_eq time_sleep_def
      split: reply.splits sum.splits if_splits)

text \<open>Every text that a cycle writes starts with \<open>E\<close> or with a carriage return.\<close>

lemma watch_cycle_texts:
  assumes "watch_cycle max_sleep crypto_id interval c = (out, slept, r)" and "x \<in> set out"
  shows "hd x = CHR ''E'' \<or> hd x = CHR 0x0D"
  using assms
  by (auto simp: watch_cycle_eq line_def split: reply.splits sum.splits dest: watch_render_hd)

subsection \<open>The watch loop\<close>

lemma fetch_errors_Cons:
  "fetch_errors crypto_id (c # cs) = fetch_errors crypto_id [c] @ fetch_errors crypto_id cs"
  by (simp add: fetch_errors_def)

lemma watch_loop_append:
  "watch_loop max_sleep crypto_id interval (xs @ ys) =
     (case watch_loop max_sleep crypto_id interval xs of
        (out, slept, Some e) \<Rightarrow> (out, slept, Some e)
      | (out, slept, None) \<Rightarrow>
          (case watch_loop max_sleep crypto_id interval ys of
             (out', slept', r) \<Rightarrow> (out @ out', slept @ slept', r)))"
  by (induction xs) (auto split: prod.splits option.splits)

lemma watch_loop_raised_append:
  "watch_loop max_sleep crypto_id interval xs = (out, slept, Some e) \<Longrightarrow>
   watch_loop max_sleep crypto_id interval (xs @ ys) = (out, slept, Some e)"
  by (simp add: watch_loop_append)

lemma watch_loop_no_quote:
  assumes "0 \<le> interval" and "interval \<le> max_sleep"
  shows "list_all (\<lambda>c. no_quote crypto_id c \<and> \<not> interrupt c) cycles \<Longrightarrow>
         watch_loop max_sleep crypto_id interval cycles =
           (fetch_errors crypto_id cycles, replicate (length cycles) interval, None)"
proof (induction cycles)
  case Nil
  show ?case by (simp add: fetch_errors_def)
next
  case (Cons c cs)
  then have "watch_cycle max_sleep crypto_id interval c = (fetch_errors crypto_id [c], [interval], None)"
    using assms by (simp add: watch_cycle_no_quote time_sleep_in_range)
  with Cons show ?case
    by (simp add: fetch_errors_Cons [of crypto_id c cs])
qed

lemma watch_loop_no_quote_result:
  assumes "0 \<le> interval" and "interval \<le> max_sleep"
  shows "list_all (no_quote crypto_id) cycles \<Longrightarrow>
         watch_loop max_sleep crypto_id interval cycles = (out, slept, r) \<Longrightarrow>
         r = None \<or> r = Some KeyboardInterrupt \<and> list_ex interrupt cycles"
proof (induction cycles arbitrary: out slept r)
  case Nil
  then show ?case by simp
next
  case (Cons c cs)
  from Cons.prems have nq: "no_quote crypto_id c" and rest: "list_all (no_quote crypto_id) cs"
    by simp_all
  show ?case
  proof (cases "interrupt c")
    case True
    with nq assms Cons.prems show ?thesis
      by (simp add: watch_cycle_no_quote time_sleep_in_range)
  next
    case False
    obtain out' slept' r' where l: "watch_loop max_sleep crypto_id interval cs = (out', slept', r')"
      by (cases "watch_loop max_sleep crypto_id interval cs") auto
    with False nq assms Cons.prems have "r = r'"
      by (simp add: watch_cycle_no_quote time_sleep_in_range)
    with Cons.IH [OF rest l] show ?thesis by auto
  qed
qed

lemma watch_loop_raises:
  "watch_loop max_sleep crypto_id interval cycles = (out, slept, Some e) \<Longrightarrow>
   (e = KeyboardInterrupt \<longrightarrow> list_ex (cancelled crypto_id) cycles) \<and>
   (0 \<le> interval \<and> interval \<le> max_sleep \<and> e \<noteq> KeyboardInterrupt \<longrightarrow>
      list_ex (render_raises crypto_id e) cycles)"
proof (induction cycles arbitrary: out slept)
  case Nil
  then show ?case by simp
next
  case (Cons c cs)
  obtain o1 s1 r1 where c: "watch_cycle max_sleep crypto_id interval c = (o1, s1, r1)"
    by (cases "watch_cycle max_sleep crypto_id interval c") auto
  show ?case
  proof (cases r1)
    case None
    obtain o2 s2 r2 where l: "watch_loop max_sleep crypto_id interval cs = (o2, s2, r2)"
      by (cases "watch_loop max_sleep crypto_id interval cs") auto
    with c None Cons.prems have "r2 = Some e" by simp
    with Cons.IH [of o2 s2] l show ?thesis by auto
  next
    case (Some e')
    with c Cons.prems have "e' = e" by simp
    with c Some have "watch_cycle max_sleep crypto_id interval c = (o1, s1, Some e)" by simp
    from watch_cycle_raises(2,3) [OF this] show ?thesis by auto
  qed
qed

lemma watch_loop_sleeps:
  "watch_loop max_sleep crypto_id interval cycles = (out, slept, r) \<Longrightarrow>
   slept = replicate (length slept) interval"
proof (induction cycles arbitrary: out slept r)
  case Nil
  then show ?case by simp
next
  case (Cons c cs)
  obtain o1 s1 r1 where c: "watch_cycle max_sleep crypto_id interval c = (o1, s1, r1)"
    by (cases "watch_cycle max_sleep crypto_id interval c") auto
  show ?case
  proof (cases r1)
    case None
    obtain o2 s2 r2 where l: "watch_loop max_sleep crypto_id interval cs = (o2, s2, r2)"
      by (cases "watch_loop max_sleep crypto_id interval cs") auto
    from c None have "s1 = [interval]" by (simp add: watch_cycle_returns)
    with c None l Cons.prems have "slept = interval # s2" by simp
    with Cons.IH [OF l] show ?thesis by simp
  next
    case (Some e)
    with c have "s1 = []" by (simp add: watch_cycle_raises(1))
    with c Some Cons.prems show ?thesis by simp
  qed
qed

lemma watch_loop_texts:
  "watch_loop max_sleep crypto_id interval cycles = (out, slept, r) \<Longrightarrow> x \<in> set out \<Longrightarrow>
   hd x = CHR ''E'' \<or> hd x = CHR 0x0D"
proof (induction cycles arbitrary: out slept r)
  case Nil
  then show ?case by simp
next
  case (Cons c cs)
  obtain o1 s1 r1 where c: "watch_cycle max_sleep crypto_id interval c = (o1, s1, r1)"
    by (cases "watch_cycle max_sleep crypto_id interval c") auto
  obtain o2 s2 r2 where l: "watch_loop max_sleep crypto_id interval cs = (o2, s2, r2)"
    by (cases "watch_loop max_sleep crypto_id interval cs") auto
  from c l Cons.prems have "x \<in> set o1 \<or> x \<in> set o2"
    by (cases r1) auto
  with watch_cycle_texts [OF c] Cons.IH [OF l] show ?case by auto
qed

text \<open>The notice starts with a line feed, so it is none of the texts written before it.\<close>

lemma stop_notice_not_written:
  assumes "watch_loop max_sleep crypto_id interval cycles = (out, slept, r)"
  shows "stop_notice \<notin> set (banner crypto_id interval @ out)"
proof -
  have n: "hd stop_notice = CHR 0x0A" by (simp add: stop_notice_def line_def)
  have loop: "stop_notice \<notin> set out"
  proof
    assume "stop_notice \<in> set out"
    from watch_loop_texts [OF assms this] n show False by simp
  qed
  have b: "hd x = CHR ''W'' \<or> hd x = CHR ''U''"
    if "x \<in> set (banner crypto_id interval)" for x
    using that by (auto simp: banner_def line_def)
  have "stop_notice \<notin> set (banner crypto_id interval)"
  proof
    assume "stop_notice \<in> set (banner crypto_id interval)"
    from b [OF this] n show False by simp
  qed
  with loop show ?thesis by simp
qed

subsection \<open>The watch session\<close>

lemma watch_crypto_Running:
  "state (watch_crypto max_sleep crypto_id interval cycles) = Running \<longleftrightarrow>
   (\<exists>out slept. watch_loop max_sleep crypto_id interval cycles = (out, slept, None))"
  by (cases "watch_loop max_sleep crypto_id interval cycles")
     (auto simp: watch_crypto_def split: option.splits)

lemma watch_crypto_Stopped:
  "state (watch_crypto max_sleep crypto_id interval cycles) = Stopped \<longleftrightarrow>
   (\<exists>out slept. watch_loop max_sleep crypto_id interval cycles = (out, slept, Some KeyboardInterrupt))"
  by (cases "watch_loop max_sleep crypto_id interval cycles")
     (auto simp: watch_crypto_def split: option.splits)

lemma watch_crypto_Crashed:
  "state (watch_crypto max_sleep crypto_id interval cycles) = Crashed e \<longleftrightarrow>
   e \<noteq> KeyboardInterrupt \<and>
   (\<exists>out slept. watch_loop max_sleep crypto_id interval cycles = (out, slept, Some e))"
  by (cases "watch_loop max_sleep crypto_id interval cycles")
     (auto simp: watch_crypto_def split: option.splits)

text \<open>
  Claim C1, as stated, fails in two ways. The interval is not checked: with a negative
  interval the first sleep raises \<^verbatim>\<open>ValueError\<close>, and with an interval longer than
  the platform can sleep it raises \<^verbatim>\<open>OverflowError\<close>; \<^verbatim>\<open>watch_crypto\<close> catches
  neither. And a cycle whose request fails does print something: the error message of
  \<^verbatim>\<open>get_crypto_price\<close>.
\<close>

theorem watch_without_quote_counterexample:
  "state (watch_crypto 9223372036 ''bitcoin'' (- 1)
            [\<lparr>server = (\<lambda>r. Body []), clock = ''12:00:00'', interrupt = False\<rparr>]) =
     Crashed ValueError \<and>
   state (watch_crypto 9223372036 ''bitcoin'' 9223372037
            [\<lparr>server = (\<lambda>r. Body []), clock = ''12:00:00'', interrupt = False\<rparr>]) =
     Crashed OverflowError \<and>
   printed (watch_crypto 9223372036 ''bitcoin'' 30
              [\<lparr>server = (\<lambda>r. Failed ''timed out''), clock = ''12:00:00'',
                interrupt = False\<rparr>]) =
     banner ''bitcoin'' 30 @ [line ''Error fetching data: timed out'']"
  by (simp add: watch_crypto_def watch_cycle_def watch_render_def get_crypto_price_def
      time_sleep_def)

text \<open>
  Claim C1, amended. For every asset id and every interval from 0 up to the longest
  sleep of the platform, when every request of the session fails or returns a body
  without the asset, no cycle renders a line: a cycle whose request fails prints the
  error message of the request and nothing else, a cycle whose body lacks the asset
  prints nothing. No cycle raises an exception of its own, each cycle sleeps for the
  interval, and the loop goes on: after any number of cycles without an interrupt the
  session is running and has slept once per cycle. With interrupts the session is
  running or has been stopped by one of them.
\<close>

theorem watch_without_quote:
  assumes "0 \<le> interval" and "interval \<le> max_sleep"
      and "list_all (no_quote crypto_id) cycles"
  shows "(\<not> list_ex interrupt cycles \<longrightarrow>
            watch_crypto max_sleep crypto_id interval cycles =
              \<lparr>printed = banner crypto_id interval @ fetch_errors crypto_id cycles,
               sleeps = replicate (length cycles) interval,
               state = Running\<rparr>) \<and>
         (state (watch_crypto max_sleep crypto_id interval cycles) = Running \<or>
          state (watch_crypto max_sleep crypto_id interval cycles) = Stopped \<and>
          list_ex interrupt cycles)"
proof
  show "\<not> list_ex interrupt cycles \<longrightarrow>
            watch_crypto max_sleep crypto_id interval cycles =
              \<lparr>printed = banner crypto_id interval @ fetch_errors crypto_id cycles,
               sleeps = replicate (length cycles) interval,
               state = Running\<rparr>"
  proof
    assume "\<not> list_ex interrupt cycles"
    with assms(3) have "list_all (\<lambda>c. no_quote crypto_id c \<and> \<not> interrupt c) cycles"
      by (auto simp: list_all_iff list_ex_iff)
    from watch_loop_no_quote [OF assms(1,2) this]
    show "watch_crypto max_sleep crypto_id interval cycles =
              \<lparr>printed = banner crypto_id interval @ fetch_errors crypto_id cycles,
               sleeps = replicate (length cycles) interval,
               state = Running\<rparr>"
      by (simp add: watch_crypto_def)
  qed
next
  obtain out slept r where l: "watch_loop max_sleep crypto_id interval cycles = (out, slept, r)"
    by (cases "watch_loop max_sleep crypto_id interval cycles") auto
  from watch_loop_no_quote_result [OF assms l]
  show "state (watch_crypto max_sleep crypto_id interval cycles) = Running \<or>
        state (watch_crypto max_sleep crypto_id interval cycles) = Stopped \<and>
        list_ex interrupt cycles"
    using l by (auto simp: watch_crypto_def)
qed

text \<open>A request that fails, an empty body, and a body with another asset.\<close>

theorem watch_without_quote_witness:
  "(0::int) \<le> 30 \<and> (30::int) \<le> 9223372036 \<and>
   watch_crypto 9223372036 ''bitcoin'' 30
     [\<lparr>server = (\<lambda>r. Failed ''timed out''), clock = ''12:00:00'', interrupt = False\<rparr>,
      \<lparr>server = (\<lambda>r. Body []), clock = ''12:00:30'', interrupt = False\<rparr>,
      \<lparr>server = (\<lambda>r. Body [(''ethereum'', JObj [(''usd'', JInt 3000)])]),
       clock = ''12:01:00'', interrupt = False\<rparr>] =
   \<lparr>printed = banner ''bitcoin'' 30 @ [line ''Error fetching data: timed out''],
    sleeps = [30, 30, 30], state = Running\<rparr>"
  using watch_without_quote
    [of 30 9223372036 "''bitcoin''"
        "[\<lparr>server = (\<lambda>r. Failed ''timed out''), clock = ''12:00:00'', interrupt = False\<rparr>,
          \<lparr>server = (\<lambda>r. Body []), clock = ''12:00:30'', interrupt = False\<rparr>,
          \<lparr>server = (\<lambda>r. Body [(''ethereum'', JObj [(''usd'', JInt 3000)])]),
           clock = ''12:01:00'', interrupt = False\<rparr>]"]
  by (simp add: no_quote_def fetch_errors_def)

subsection \<open>Stopping\<close>

lemma watch_crypto_stopped_session:
  assumes "watch_loop max_sleep crypto_id interval cycles = (out, slept, Some KeyboardInterrupt)"
  shows "watch_crypto max_sleep crypto_id interval cycles =
           \<lparr>printed = banner crypto_id interval @ out @ [stop_notice], sleeps = slept,
            state = Stopped\<rparr>"
  using assms by (simp add: watch_crypto_def)

lemma watch_crypto_running_session:
  assumes "watch_loop max_sleep crypto_id interval cycles = (out, slept, None)"
  shows "watch_crypto max_sleep crypto_id interval cycles =
           \<lparr>printed = banner crypto_id interval @ out, sleeps = slept, state = Running\<rparr>"
  using assms by (simp add: watch_crypto_def)

lemma stopped_only_by_interrupt:
  assumes "state (watch_crypto max_sleep crypto_id interval cycles) = Stopped"
  shows "list_ex (cancelled crypto_id) cycles"
    and "count_list (printed (watch_crypto max_sleep crypto_id interval cycles)) stop_notice = 1"
    and "last (printed (watch_crypto max_sleep crypto_id interval cycles)) = stop_notice"
    and "watch_crypto max_sleep crypto_id interval (cycles @ later) = watch_crypto max_sleep crypto_id interval cycles"
proof -
  from assms obtain out slept
    where l: "watch_loop max_sleep crypto_id interval cycles = (out, slept, Some KeyboardInterrupt)"
    by (auto simp: watch_crypto_Stopped)
  note s = watch_crypto_stopped_session [OF l]
  from watch_loop_raises [OF l] show "list_ex (cancelled crypto_id) cycles" by simp
  from stop_notice_not_written [OF l]
  have "count_list (banner crypto_id interval @ out) stop_notice = 0"
    by (simp only: count_list_0_iff not_False_eq_True)
  then show "count_list (printed (watch_crypto max_sleep crypto_id interval cycles)) stop_notice = 1"
    by (simp add: s)
  show "last (printed (watch_crypto max_sleep crypto_id interval cycles)) = stop_notice"
    by (simp add: s)
  from watch_crypto_stopped_session [OF watch_loop_raised_append [OF l, of later]]
  show "watch_crypto max_sleep crypto_id interval (cycles @ later) = watch_crypto max_sleep crypto_id interval cycles"
    by (simp add: s)
qed

lemma interrupt_during_request:
  assumes "state (watch_crypto max_sleep crypto_id interval cycles) = Running"
      and "server c (price_request crypto_id) = Interrupted"
  shows "watch_crypto max_sleep crypto_id interval (cycles @ c # later) =
           \<lparr>printed = printed (watch_crypto max_sleep crypto_id interval cycles) @ [stop_notice],
            sleeps = sleeps (watch_crypto max_sleep crypto_id interval cycles), state = Stopped\<rparr>"
proof -
  from assms(1) obtain out slept
    where l: "watch_loop max_sleep crypto_id interval cycles = (out, slept, None)"
    by (auto simp: watch_crypto_Running)
  from assms(2) have "watch_loop max_sleep crypto_id interval (c # later) = ([], [], Some KeyboardInterrupt)"
    by (simp add: watch_cycle_fetch_interrupted)
  with l have "watch_loop max_sleep crypto_id interval (cycles @ c # later) =
      (out, slept, Some KeyboardInterrupt)"
    by (simp add: watch_loop_append)
  then show ?thesis
    by (simp add: watch_crypto_stopped_session watch_crypto_running_session [OF l])
qed

lemma interrupt_during_sleep:
  assumes "state (watch_crypto max_sleep crypto_id interval (cycles @ [c\<lparr>interrupt := False\<rparr>])) = Running"
      and "interrupt c"
  shows "watch_crypto max_sleep crypto_id interval (cycles @ c # later) =
           \<lparr>printed =
              printed (watch_crypto max_sleep crypto_id interval (cycles @ [c\<lparr>interrupt := False\<rparr>])) @
              [stop_notice],
            sleeps = sleeps (watch_crypto max_sleep crypto_id interval cycles), state = Stopped\<rparr>"
proof -
  obtain out slept r where l: "watch_loop max_sleep crypto_id interval cycles = (out, slept, r)"
    by (cases "watch_loop max_sleep crypto_id interval cycles") auto
  obtain o1 s1 r1
    where c: "watch_cycle max_sleep crypto_id interval (c\<lparr>interrupt := False\<rparr>) = (o1, s1, r1)"
    by (cases "watch_cycle max_sleep crypto_id interval (c\<lparr>interrupt := False\<rparr>)") auto
  from assms(1) l c have r: "r = None" and r1: "r1 = None"
    by (auto simp: watch_crypto_Running watch_loop_append split: option.splits)
  from c r1 assms(2) have c': "watch_cycle max_sleep crypto_id interval c = (o1, [], Some KeyboardInterrupt)"
    by (simp add: watch_cycle_sleep_interrupted)
  from l r c r1
  have quiet: "watch_loop max_sleep crypto_id interval (cycles @ [c\<lparr>interrupt := False\<rparr>]) =
      (out @ o1, slept @ s1, None)"
    by (simp add: watch_loop_append)
  from l r c'
  have "watch_loop max_sleep crypto_id interval (cycles @ c # later) =
      (out @ o1, slept, Some KeyboardInterrupt)"
    by (simp add: watch_loop_append)
  then show ?thesis
    using l r
    by (simp add: watch_crypto_stopped_session watch_crypto_running_session [OF quiet]
        watch_crypto_running_session [of max_sleep crypto_id interval cycles out slept])
qed

text \<open>
  Claim C2. A watch session is stopped only by the operator's interrupt: if it is
  stopped, the interrupt has arrived in one of its cycles, the notice is printed exactly
  once and is the last text printed, and whatever the world would have done afterwards
  changes nothing (the loop is never entered again). Conversely the interrupt stops a
  running session at once: when it arrives during a request, the notice follows what was
  printed before; when it arrives during a sleep, the notice follows what the cycle has
  printed, and the sleep is not completed.
\<close>

theorem watch_stops_on_interrupt:
  "(state (watch_crypto max_sleep crypto_id interval cycles) = Stopped \<longrightarrow>
      list_ex (cancelled crypto_id) cycles \<and>
      count_list (printed (watch_crypto max_sleep crypto_id interval cycles)) stop_notice = 1 \<and>
      last (printed (watch_crypto max_sleep crypto_id interval cycles)) = stop_notice \<and>
      watch_crypto max_sleep crypto_id interval (cycles @ later) =
        watch_crypto max_sleep crypto_id interval cycles) \<and>
   (state (watch_crypto max_sleep crypto_id interval cycles) = Running \<and>
    server c (price_request crypto_id) = Interrupted \<longrightarrow>
      watch_crypto max_sleep crypto_id interval (cycles @ c # later) =
        \<lparr>printed = printed (watch_crypto max_sleep crypto_id interval cycles) @ [stop_notice],
         sleeps = sleeps (watch_crypto max_sleep crypto_id interval cycles), state = Stopped\<rparr>) \<and>
   (state (watch_crypto max_sleep crypto_id interval (cycles @ [c\<lparr>interrupt := False\<rparr>])) = Running \<and>
    interrupt c \<longrightarrow>
      watch_crypto max_sleep crypto_id interval (cycles @ c # later) =
        \<lparr>printed =
           printed (watch_crypto max_sleep crypto_id interval (cycles @ [c\<lparr>interrupt := False\<rparr>])) @
           [stop_notice],
         sleeps = sleeps (watch_crypto max_sleep crypto_id interval cycles), state = Stopped\<rparr>)"
proof (intro conjI impI)
  assume s: "state (watch_crypto max_sleep crypto_id interval cycles) = Stopped"
  from s show "list_ex (cancelled crypto_id) cycles"
    by (rule stopped_only_by_interrupt)
  from s show "count_list (printed (watch_crypto max_sleep crypto_id interval cycles)) stop_notice = 1"
    by (rule stopped_only_by_interrupt)
  from s show "last (printed (watch_crypto max_sleep crypto_id interval cycles)) = stop_notice"
    by (rule stopped_only_by_interrupt)
  from s show "watch_crypto max_sleep crypto_id interval (cycles @ later) =
      watch_crypto max_sleep crypto_id interval cycles"
    by (rule stopped_only_by_interrupt)
next
  assume "state (watch_crypto max_sleep crypto_id interval cycles) = Running \<and>
    server c (price_request crypto_id) = Interrupted"
  then show "watch_crypto max_sleep crypto_id interval (cycles @ c # later) =
        \<lparr>printed = printed (watch_crypto max_sleep crypto_id interval cycles) @ [stop_notice],
         sleeps = sleeps (watch_crypto max_sleep crypto_id interval cycles), state = Stopped\<rparr>"
    by (simp add: interrupt_during_request)
next
  assume "state (watch_crypto max_sleep crypto_id interval (cycles @ [c\<lparr>interrupt := False\<rparr>])) =
      Running \<and> interrupt c"
  then show "watch_crypto max_sleep crypto_id interval (cycles @ c # later) =
        \<lparr>printed =
           printed (watch_crypto max_sleep crypto_id interval (cycles @ [c\<lparr>interrupt := False\<rparr>])) @
           [stop_notice],
         sleeps = sleeps (watch_crypto max_sleep crypto_id interval cycles), state = Stopped\<rparr>"
    by (simp add: interrupt_during_sleep)
qed

text \<open>
  A request that fails, then a quote and an interrupt during the sleep, then a cycle that
  is never run; and the same with the interrupt during the second request.
\<close>

theorem watch_stops_on_interrupt_witness:
  "watch_crypto 9223372036 ''bitcoin'' 30
     [\<lparr>server = (\<lambda>r. Failed ''timed out''), clock = ''12:00:00'', interrupt = False\<rparr>,
      \<lparr>server = (\<lambda>r. Body [(''bitcoin'', JObj [(''usd'', JFloat (Finite 65000.5)),
                                               (''usd_24h_change'', JFloat (Finite 1.5))])]),
       clock = ''12:00:30'', interrupt = True\<rparr>,
      \<lparr>server = (\<lambda>r. Body []), clock = ''12:01:00'', interrupt = False\<rparr>] =
   \<lparr>printed =
      banner ''bitcoin'' 30 @
      [line ''Error fetching data: timed out'',
       [CHR 0x0D] @ ''[12:00:30] BITCOIN: $65,000.50 ('' @ green @ ''+1.50%'' @ reset @ '')'',
       stop_notice],
    sleeps = [30], state = Stopped\<rparr> \<and>
   count_list
     (printed (watch_crypto 9223372036 ''bitcoin'' 30
        [\<lparr>server = (\<lambda>r. Failed ''timed out''), clock = ''12:00:00'', interrupt = False\<rparr>,
         \<lparr>server = (\<lambda>r. Body [(''bitcoin'', JObj [(''usd'', JFloat (Finite 65000.5)),
                                                  (''usd_24h_change'', JFloat (Finite 1.5))])]),
          clock = ''12:00:30'', interrupt = True\<rparr>,
         \<lparr>server = (\<lambda>r. Body []), clock = ''12:01:00'', interrupt = False\<rparr>]))
     stop_notice = 1 \<and>
   watch_crypto 9223372036 ''bitcoin'' 30
     [\<lparr>server = (\<lambda>r. Failed ''timed out''), clock = ''12:00:00'', interrupt = False\<rparr>,
      \<lparr>server = (\<lambda>r. Interrupted), clock = ''12:00:30'', interrupt = False\<rparr>,
      \<lparr>server = (\<lambda>r. Body []), clock = ''12:01:00'', interrupt = False\<rparr>] =
   \<lparr>printed = banner ''bitcoin'' 30 @ [line ''Error fetching data: timed out'', stop_notice],
    sleeps = [30], state = Stopped\<rparr>"
proof -
  have "state (watch_crypto 9223372036 ''bitcoin'' 30
          ([\<lparr>server = (\<lambda>r. Failed ''timed out''), clock = ''12:00:00'', interrupt = False\<rparr>] @
           [\<lparr>server = (\<lambda>r. Body [(''bitcoin'', JObj [(''usd'', JFloat (Finite 65000.5)),
                                                     (''usd_24h_change'', JFloat (Finite 1.5))])]),
             clock = ''12:00:30'', interrupt = True\<rparr>\<lparr>interrupt := False\<rparr>])) = Running \<and>
        interrupt
          \<lparr>server = (\<lambda>r. Body [(''bitcoin'', JObj [(''usd'', JFloat (Finite 65000.5)),
                                                   (''usd_24h_change'', JFloat (Finite 1.5))])]),
           clock = ''12:00:30'', interrupt = True\<rparr>"
    by (simp add: eval_watch eval_text)
  with watch_stops_on_interrupt
    [of 9223372036 "''bitcoin''" 30
        "[\<lparr>server = (\<lambda>r. Failed ''timed out''), clock = ''12:00:00'', interrupt = False\<rparr>]"
        "[\<lparr>server = (\<lambda>r. Body []), clock = ''12:01:00'', interrupt = False\<rparr>]"
        "\<lparr>server = (\<lambda>r. Body [(''bitcoin'', JObj [(''usd'', JFloat (Finite 65000.5)),
                                                  (''usd_24h_change'', JFloat (Finite 1.5))])]),
          clock = ''12:00:30'', interrupt = True\<rparr>"]
  have "watch_crypto 9223372036 ''bitcoin'' 30
          ([\<lparr>server = (\<lambda>r. Failed ''timed out''), clock = ''12:00:00'', interrupt = False\<rparr>] @
           \<lparr>server = (\<lambda>r. Body [(''bitcoin'', JObj [(''usd'', JFloat (Finite 65000.5)),
                                                    (''usd_24h_change'', JFloat (Finite 1.5))])]),
            clock = ''12:00:30'', interrupt = True\<rparr> #
           [\<lparr>server = (\<lambda>r. Body []), clock = ''12:01:00'', interrupt = False\<rparr>]) =
        \<lparr>printed =
           printed (watch_crypto 9223372036 ''bitcoin'' 30
             ([\<lparr>server = (\<lambda>r. Failed ''timed out''), clock = ''12:00:00'',
                interrupt = False\<rparr>] @
              [\<lparr>server = (\<lambda>r. Body [(''bitcoin'', JObj [(''usd'', JFloat (Finite 65000.5)),
                                                        (''usd_24h_change'', JFloat (Finite 1.5))])]),
                clock = ''12:00:30'', interrupt = True\<rparr>\<lparr>interrupt := False\<rparr>])) @
           [stop_notice],
         sleeps = sleeps (watch_crypto 9223372036 ''bitcoin'' 30
           [\<lparr>server = (\<lambda>r. Failed ''timed out''), clock = ''12:00:00'', interrupt = False\<rparr>]),
         state = Stopped\<rparr>"
    by blast
  then have during_sleep:
    "watch_crypto 9223372036 ''bitcoin'' 30
       [\<lparr>server = (\<lambda>r. Failed ''timed out''), clock = ''12:00:00'', interrupt = False\<rparr>,
        \<lparr>server = (\<lambda>r. Body [(''bitcoin'', JObj [(''usd'', JFloat (Finite 65000.5)),
                                                 (''usd_24h_change'', JFloat (Finite 1.5))])]),
         clock = ''12:00:30'', interrupt = True\<rparr>,
        \<lparr>server = (\<lambda>r. Body []), clock = ''12:01:00'', interrupt = False\<rparr>] =
     \<lparr>printed =
        banner ''bitcoin'' 30 @
        [line ''Error fetching data: timed out'',
         [CHR 0x0D] @ ''[12:00:30] BITCOIN: $65,000.50 ('' @ green @ ''+1.50%'' @ reset @ '')'',
         stop_notice],
      sleeps = [30], state = Stopped\<rparr>"
    by (simp add: eval_watch eval_text)
  then have "state (watch_crypto 9223372036 ''bitcoin'' 30
       [\<lparr>server = (\<lambda>r. Failed ''timed out''), clock = ''12:00:00'', interrupt = False\<rparr>,
        \<lparr>server = (\<lambda>r. Body [(''bitcoin'', JObj [(''usd'', JFloat (Finite 65000.5)),
                                                 (''usd_24h_change'', JFloat (Finite 1.5))])]),
         clock = ''12:00:30'', interrupt = True\<rparr>,
        \<lparr>server = (\<lambda>r. Body []), clock = ''12:01:00'', interrupt = False\<rparr>]) = Stopped"
    by simp
  with watch_stops_on_interrupt
    [of 9223372036 "''bitcoin''" 30
        "[\<lparr>server = (\<lambda>r. Failed ''timed out''), clock = ''12:00:00'', interrupt = False\<rparr>,
          \<lparr>server = (\<lambda>r. Body [(''bitcoin'', JObj [(''usd'', JFloat (Finite 65000.5)),
                                                   (''usd_24h_change'', JFloat (Finite 1.5))])]),
           clock = ''12:00:30'', interrupt = True\<rparr>,
          \<lparr>server = (\<lambda>r. Body []), clock = ''12:01:00'', interrupt = False\<rparr>]"]
  have once: "count_list
     (printed (watch_crypto 9223372036 ''bitcoin'' 30
        [\<lparr>server = (\<lambda>r. Failed ''timed out''), clock = ''12:00:00'', interrupt = False\<rparr>,
         \<lparr>server = (\<lambda>r. Body [(''bitcoin'', JObj [(''usd'', JFloat (Finite 65000.5)),
                                                  (''usd_24h_change'', JFloat (Finite 1.5))])]),
          clock = ''12:00:30'', interrupt = True\<rparr>,
         \<lparr>server = (\<lambda>r. Body []), clock = ''12:01:00'', interrupt = False\<rparr>]))
     stop_notice = 1"
    by blast
  have "state (watch_crypto 9223372036 ''bitcoin'' 30
          [\<lparr>server = (\<lambda>r. Failed ''timed out''), clock = ''12:00:00'', interrupt = False\<rparr>]) =
        Running \<and>
        server \<lparr>server = (\<lambda>r. Interrupted), clock = ''12:00:30'', interrupt = False\<rparr>
          (price_request ''bitcoin'') = Interrupted"
    by (simp add: watch_crypto_def watch_cycle_def watch_render_def get_crypto_price_def
        time_sleep_def)
  with watch_stops_on_interrupt
    [of 9223372036 "''bitcoin''" 30
        "[\<lparr>server = (\<lambda>r. Failed ''timed out''), clock = ''12:00:00'', interrupt = False\<rparr>]"
        "[\<lparr>server = (\<lambda>r. Body []), clock = ''12:01:00'', interrupt = False\<rparr>]"
        "\<lparr>server = (\<lambda>r. Interrupted), clock = ''12:00:30'', interrupt = False\<rparr>"]
  have "watch_crypto 9223372036 ''bitcoin'' 30
          ([\<lparr>server = (\<lambda>r. Failed ''timed out''), clock = ''12:00:00'', interrupt = False\<rparr>] @
           \<lparr>server = (\<lambda>r. Interrupted), clock = ''12:00:30'', interrupt = False\<rparr> #
           [\<lparr>server = (\<lambda>r. Body []), clock = ''12:01:00'', interrupt = False\<rparr>]) =
        \<lparr>printed =
           printed (watch_crypto 9223372036 ''bitcoin'' 30
             [\<lparr>server = (\<lambda>r. Failed ''timed out''), clock = ''12:00:00'',
               interrupt = False\<rparr>]) @
           [stop_notice],
         sleeps = sleeps (watch_crypto 9223372036 ''bitcoin'' 30
           [\<lparr>server = (\<lambda>r. Failed ''timed out''), clock = ''12:00:00'', interrupt = False\<rparr>]),
         state = Stopped\<rparr>"
    by blast
  then have during_request:
    "watch_crypto 9223372036 ''bitcoin'' 30
       [\<lparr>server = (\<lambda>r. Failed ''timed out''), clock = ''12:00:00'', interrupt = False\<rparr>,
        \<lparr>server = (\<lambda>r. Interrupted), clock = ''12:00:30'', interrupt = False\<rparr>,
        \<lparr>server = (\<lambda>r. Body []), clock = ''12:01:00'', interrupt = False\<rparr>] =
     \<lparr>printed = banner ''bitcoin'' 30 @ [line ''Error fetching data: timed out'', stop_notice],
      sleeps = [30], state = Stopped\<rparr>"
    by (simp add: watch_crypto_def watch_cycle_def watch_render_def get_crypto_price_def
        time_sleep_def)
  from during_sleep once during_request show ?thesis by blast
qed

subsection \<open>The interval\<close>

text \<open>
  Claim C3, as stated, fails: the interval is neither rejected nor raised to 1. With the
  interval 0 the session sleeps for 0 seconds, with the interval -5 the call of
  \<^verbatim>\<open>time.sleep\<close> fails in the first cycle, and so it does with an interval longer
  than the platform can sleep.
\<close>

theorem watch_interval_counterexample:
  "sleeps (main_watch 9223372036 ''bitcoin'' 0
             [\<lparr>server = (\<lambda>r. Body []), clock = ''12:00:00'', interrupt = False\<rparr>]) = [0] \<and>
   state (main_watch 9223372036 ''bitcoin'' 0
            [\<lparr>server = (\<lambda>r. Body []), clock = ''12:00:00'', interrupt = False\<rparr>]) = Running \<and>
   state (main_watch 9223372036 ''bitcoin'' (- 5)
            [\<lparr>server = (\<lambda>r. Body []), clock = ''12:00:00'', interrupt = False\<rparr>]) =
     Crashed ValueError \<and>
   state (main_watch 9223372036 ''bitcoin'' 9223372037
            [\<lparr>server = (\<lambda>r. Body []), clock = ''12:00:00'', interrupt = False\<rparr>]) =
     Crashed OverflowError"
  by (simp add: main_watch_def watch_crypto_def watch_cycle_def watch_render_def
      get_crypto_price_def time_sleep_def)

text \<open>
  Claim C3, amended. The interval given on the command line reaches the loop unchanged,
  and every sleep of the session is for exactly that interval. When the interval is from
  0 up to the longest sleep of the platform, the call of \<^verbatim>\<open>time.sleep\<close> cannot fail:
  it returns unless the operator interrupts it, and a session that has crashed has
  crashed in the rendering of a cycle, with the exception that the rendering raised.
  When the interval is positive every sleep is for a positive number of seconds.
\<close>

theorem watch_interval_unchanged:
  "sleeps (main_watch max_sleep crypto_id interval cycles) =
     replicate (length (sleeps (main_watch max_sleep crypto_id interval cycles))) interval \<and>
   (0 \<le> interval \<and> interval \<le> max_sleep \<longrightarrow>
      time_sleep max_sleep interval False = None \<and>
      time_sleep max_sleep interval True = Some KeyboardInterrupt \<and>
      (state (main_watch max_sleep crypto_id interval cycles) = Crashed e \<longrightarrow>
         list_ex (render_raises crypto_id e) cycles)) \<and>
   (0 < interval \<longrightarrow>
      list_all (\<lambda>s. 0 < s) (sleeps (main_watch max_sleep crypto_id interval cycles)))"
proof -
  obtain out slept r where l: "watch_loop max_sleep crypto_id interval cycles = (out, slept, r)"
    by (cases "watch_loop max_sleep crypto_id interval cycles") auto
  then have s: "sleeps (main_watch max_sleep crypto_id interval cycles) = slept"
    by (simp add: main_watch_def watch_crypto_def split: option.splits)
  from watch_loop_sleeps [OF l] have rep: "slept = replicate (length slept) interval" .
  have "list_ex (render_raises crypto_id e) cycles"
    if "0 \<le> interval \<and> interval \<le> max_sleep"
      and "state (main_watch max_sleep crypto_id interval cycles) = Crashed e"
  proof -
    from that(2) obtain out' slept'
      where e: "e \<noteq> KeyboardInterrupt"
        and "watch_loop max_sleep crypto_id interval cycles = (out', slept', Some e)"
      by (auto simp: main_watch_def watch_crypto_Crashed)
    from watch_loop_raises [OF this(2)] that(1) e show ?thesis by simp
  qed
  moreover have "list_all (\<lambda>s. 0 < s) slept" if "0 < interval"
    using that by (subst rep) (simp add: list_all_iff)
  ultimately show ?thesis
    using rep s by (simp add: time_sleep_in_range)
qed

text \<open>
  Thirty seconds, two cycles; and a third cycle whose body gives the price as a string,
  where the rendering raises \<^verbatim>\<open>TypeError\<close>.
\<close>

theorem watch_interval_unchanged_witness:
  "(0::int) < 30 \<and> (30::int) \<le> 9223372036 \<and>
   sleeps (main_watch 9223372036 ''bitcoin'' 30
             [\<lparr>server = (\<lambda>r. Failed ''timed out''), clock = ''12:00:00'', interrupt = False\<rparr>,
              \<lparr>server = (\<lambda>r. Body []), clock = ''12:00:30'', interrupt = False\<rparr>,
              \<lparr>server = (\<lambda>r. Body [(''bitcoin'', JObj [(''usd'', JStr ''n/a'')])]),
               clock = ''12:01:00'', interrupt = False\<rparr>]) =
     [30, 30] \<and>
   state (main_watch 9223372036 ''bitcoin'' 30
            [\<lparr>server = (\<lambda>r. Failed ''timed out''), clock = ''12:00:00'', interrupt = False\<rparr>,
             \<lparr>server = (\<lambda>r. Body []), clock = ''12:00:30'', interrupt = False\<rparr>,
             \<lparr>server = (\<lambda>r. Body [(''bitcoin'', JObj [(''usd'', JStr ''n/a'')])]),
              clock = ''12:01:00'', interrupt = False\<rparr>]) =
     Crashed TypeError \<and>
   list_ex (render_raises ''bitcoin'' TypeError)
     [\<lparr>server = (\<lambda>r. Failed ''timed out''), clock = ''12:00:00'', interrupt = False\<rparr>,
      \<lparr>server = (\<lambda>r. Body []), clock = ''12:00:30'', interrupt = False\<rparr>,
      \<lparr>server = (\<lambda>r. Body [(''bitcoin'', JObj [(''usd'', JStr ''n/a'')])]),
       clock = ''12:01:00'', interrupt = False\<rparr>]"
proof -
  have st: "state (main_watch 9223372036 ''bitcoin'' 30
            [\<lparr>server = (\<lambda>r. Failed ''timed out''), clock = ''12:00:00'', interrupt = False\<rparr>,
             \<lparr>server = (\<lambda>r. Body []), clock = ''12:00:30'', interrupt = False\<rparr>,
             \<lparr>server = (\<lambda>r. Body [(''bitcoin'', JObj [(''usd'', JStr ''n/a'')])]),
              clock = ''12:01:00'', interrupt = False\<rparr>]) =
     Crashed TypeError"
    by (simp add: main_watch_def eval_watch eval_text)
  have len: "length (sleeps (main_watch 9223372036 ''bitcoin'' 30
            [\<lparr>server = (\<lambda>r. Failed ''timed out''), clock = ''12:00:00'', interrupt = False\<rparr>,
             \<lparr>server = (\<lambda>r. Body []), clock = ''12:00:30'', interrupt = False\<rparr>,
             \<lparr>server = (\<lambda>r. Body [(''bitcoin'', JObj [(''usd'', JStr ''n/a'')])]),
              clock = ''12:01:00'', interrupt = False\<rparr>])) = 2"
    by (simp add: main_watch_def eval_watch eval_text)
  from watch_interval_unchanged
    [of 9223372036 "''bitcoin''" 30
        "[\<lparr>server = (\<lambda>r. Failed ''timed out''), clock = ''12:00:00'', interrupt = False\<rparr>,
          \<lparr>server = (\<lambda>r. Body []), clock = ''12:00:30'', interrupt = False\<rparr>,
          \<lparr>server = (\<lambda>r. Body [(''bitcoin'', JObj [(''usd'', JStr ''n/a'')])]),
           clock = ''12:01:00'', interrupt = False\<rparr>]" TypeError]
  show ?thesis
    unfolding len st by (simp add: numeral_2_eq_2)
qed

end
